theory Spec2Isabelle
  imports Complex_Main "HOL-Library.Sublist" "HOL-Library.Multiset"
begin

section \<open>Python exceptions as values\<close>

text \<open>
  The exception classes that the modelled functions name in their \<^verbatim>\<open>except\<close> clauses,
  three that the calls they make raise and no clause names (\<^verbatim>\<open>ValueError\<close>,
  \<^verbatim>\<open>OverflowError\<close>, \<^verbatim>\<open>IndexError\<close>), and one constructor for every other exception.  \<open>is_OSError\<close> is Python's subclass
  relation below \<^verbatim>\<open>OSError\<close>: \<^verbatim>\<open>except OSError\<close> also catches
  \<^verbatim>\<open>FileNotFoundError\<close>, \<^verbatim>\<open>PermissionError\<close> and \<^verbatim>\<open>ProcessLookupError\<close>;
  \<^verbatim>\<open>subprocess.TimeoutExpired\<close> is not an \<^verbatim>\<open>OSError\<close>.
\<close>

datatype py_exc =
    OSError
  | FileNotFoundError
  | PermissionError
  | ProcessLookupError
  | TimeoutExpired
  | ValueError
  | OverflowError
  | IndexError
  | OtherException

fun is_OSError :: "py_exc \<Rightarrow> bool" where
  "is_OSError OSError = True"
| "is_OSError FileNotFoundError = True"
| "is_OSError PermissionError = True"
| "is_OSError ProcessLookupError = True"
| "is_OSError TimeoutExpired = False"
| "is_OSError ValueError = False"
| "is_OSError OverflowError = False"
| "is_OSError IndexError = False"
| "is_OSError OtherException = False"

section \<open>Control facade: \<^verbatim>\<open>wiggum_tui/actions/worker_control.py\<close>\<close>

subsection \<open>stop_worker, kill_worker\<close>

text \<open>
  \<^verbatim>\<open>subprocess.run(args, capture_output=True, timeout=t)\<close> is the external command: it
  either raises or returns a completed process, of which only \<^verbatim>\<open>returncode\<close> is read.
  The command runner is a parameter; it receives the argument vector and the timeout in
  seconds that the source passes.
\<close>

type_synonym subprocess_run = "string list \<Rightarrow> nat \<Rightarrow> py_exc + int"

definition stop_timeout :: nat where
  "stop_timeout = 35"

definition kill_timeout :: nat where
  "kill_timeout = 10"

text \<open>The clause \<^verbatim>\<open>except (subprocess.TimeoutExpired, FileNotFoundError, OSError)\<close>.\<close>

definition control_caught :: "py_exc \<Rightarrow> bool" where
  "control_caught e = (e = TimeoutExpired \<or> e = FileNotFoundError \<or> is_OSError e)"

definition stop_worker :: "subprocess_run \<Rightarrow> string \<Rightarrow> py_exc + bool" where
  "stop_worker run worker_id =
     (case run [''wiggum'', ''stop'', worker_id] stop_timeout of
        Inr returncode \<Rightarrow> Inr (returncode = 0)
      | Inl e \<Rightarrow> if control_caught e then Inr False else Inl e)"

definition kill_worker :: "subprocess_run \<Rightarrow> string \<Rightarrow> py_exc + bool" where
  "kill_worker run worker_id =
     (case run [''wiggum'', ''kill'', worker_id] kill_timeout of
        Inr returncode \<Rightarrow> Inr (returncode = 0)
      | Inl e \<Rightarrow> if control_caught e then Inr False else Inl e)"

subsection \<open>verify_worker_process\<close>

text \<open>
  Python's \<^verbatim>\<open>needle in haystack\<close> on strings, as a scan over the start positions.
\<close>

fun str_in :: "string \<Rightarrow> string \<Rightarrow> bool" where
  "str_in needle [] = (needle = [])"
| "str_in needle (c # cs) = (prefix needle (c # cs) \<or> str_in needle cs)"

text \<open>
  The proc filesystem as the function sees it: \<^verbatim>\<open>Path.exists()\<close> and
  \<^verbatim>\<open>Path.read_text()\<close> on \<^verbatim>\<open>/proc/<pid>/cmdline\<close>, each of which returns or raises.
\<close>

record procfs =
  cmdline_exists :: "int \<Rightarrow> py_exc + bool"
  cmdline_read_text :: "int \<Rightarrow> py_exc + string"

text \<open>The clause \<^verbatim>\<open>except (OSError, PermissionError)\<close>.\<close>

definition verify_caught :: "py_exc \<Rightarrow> bool" where
  "verify_caught e = (is_OSError e \<or> e = PermissionError)"

definition verify_worker_process :: "procfs \<Rightarrow> int \<Rightarrow> py_exc + bool" where
  "verify_worker_process fs pid =
     (case cmdline_exists fs pid of
        Inl e \<Rightarrow> if verify_caught e then Inr False else Inl e
      | Inr False \<Rightarrow> Inr False
      | Inr True \<Rightarrow>
          (case cmdline_read_text fs pid of
             Inl e \<Rightarrow> if verify_caught e then Inr False else Inl e
           | Inr cmdline \<Rightarrow> Inr (str_in ''bash'' cmdline)))"

subsection \<open>is_process_running\<close>

text \<open>
  What \<^verbatim>\<open>os.kill(pid, 0)\<close> consults.  The process table lists the processes by PID;
  of a process, its process group and whether the caller may signal it.  Signal 0 to a
  set of processes fails with \<^verbatim>\<open>ESRCH\<close> (\<^verbatim>\<open>ProcessLookupError\<close>) when the set is empty,
  succeeds when the caller may signal one of them, and fails with \<^verbatim>\<open>EPERM\<close>
  (\<^verbatim>\<open>PermissionError\<close>) otherwise.
\<close>

record process =
  pgid :: int
  permitted :: bool

record os_state =
  procs :: "(int \<times> process) list"
  caller_pid :: int
  caller_pgid :: int

definition signal0 :: "process list \<Rightarrow> py_exc + unit" where
  "signal0 targets =
     (if targets = [] then Inl ProcessLookupError
      else if list_ex permitted targets then Inr ()
      else Inl PermissionError)"

text \<open>
  \<^verbatim>\<open>os.kill(pid, 0)\<close>.  Python converts the PID to a C \<^verbatim>\<open>int\<close> and raises
  \<^verbatim>\<open>OverflowError\<close> outside its range.  A positive PID addresses that process; 0 the
  processes of the caller's process group; -1 every process but the first and the
  caller; another negative PID the process group of its absolute value.
\<close>

definition os_kill0 :: "os_state \<Rightarrow> int \<Rightarrow> py_exc + unit" where
  "os_kill0 st pid =
     (if pid < - (2 ^ 31) \<or> 2 ^ 31 - 1 < pid then Inl OverflowError
      else if 0 < pid then signal0 (map snd (filter (\<lambda>entry. fst entry = pid) (procs st)))
      else if pid = 0 then
        signal0 (map snd (filter (\<lambda>entry. pgid (snd entry) = caller_pgid st) (procs st)))
      else if pid = - 1 then
        signal0
          (map snd (filter (\<lambda>entry. fst entry \<noteq> 1 \<and> fst entry \<noteq> caller_pid st) (procs st)))
      else signal0 (map snd (filter (\<lambda>entry. pgid (snd entry) = - pid) (procs st))))"

definition is_process_running :: "(int \<Rightarrow> py_exc + unit) \<Rightarrow> int \<Rightarrow> py_exc + bool" where
  "is_process_running kill0 pid =
     (case kill0 pid of
        Inr _ \<Rightarrow> Inr True
      | Inl e \<Rightarrow>
          if e = ProcessLookupError then Inr False
          else if e = PermissionError then Inr True
          else Inl e)"

section \<open>Data model\<close>

text \<open>
  \<^verbatim>\<open>WorkerStatus\<close> and \<^verbatim>\<open>Worker\<close> of \<^verbatim>\<open>wiggum_tui/data/models.py\<close>, as the tests
  construct them and as \<^verbatim>\<open>metrics_panel.py\<close> reads them.  The string values of the
  enumeration are the keys of the \<^verbatim>\<open>status_color\<close> table of \<^verbatim>\<open>MetricsPanel.compose\<close>.
\<close>

datatype WorkerStatus = RUNNING | COMPLETED | FAILED | STOPPED

fun WorkerStatus_value :: "WorkerStatus \<Rightarrow> string" where
  "WorkerStatus_value RUNNING = ''running''"
| "WorkerStatus_value COMPLETED = ''completed''"
| "WorkerStatus_value FAILED = ''failed''"
| "WorkerStatus_value STOPPED = ''stopped''"

record Worker =
  id' :: string
  task_id :: string
  timestamp :: int
  pid :: "int option"
  status :: WorkerStatus
  prd_path :: string
  log_path :: string
  workspace_path :: string
  pr_url :: "string option"

text \<open>A \<^verbatim>\<open>pathlib.Path\<close> is its sequence of components; \<^verbatim>\<open>/\<close> appends one.\<close>

type_synonym path = "string list"

definition path_div :: "path \<Rightarrow> string \<Rightarrow> path" where
  "path_div p name = p @ [name]"

section \<open>Fleet aggregator: \<^verbatim>\<open>wiggum_tui/widgets/metrics_panel.py\<close>\<close>

text \<open>
  What the aggregator reads of the log-summary provider: of a conversation the
  \<^verbatim>\<open>usage\<close> of each entry of \<^verbatim>\<open>results\<close>, of a summary the five keys below.
  \<^verbatim>\<open>cost_usd\<close> is a Python float; it is modelled as a real number, so the rounding of
  float addition is not part of the model.
\<close>

record Usage =
  input :: int
  output' :: int
  cache_creation :: int
  cache_read :: int

record ResultEntry =
  usage :: Usage

record Conversation =
  results :: "ResultEntry list"

record Summary =
  turns :: int
  tool_calls :: int
  cost_usd :: real
  duration_ms :: int
  tokens :: int

text \<open>One entry of \<^verbatim>\<open>worker_summaries\<close>: the dictionary with these eight keys.\<close>

record WorkerSummary =
  row_worker_id :: string
  row_task_id :: string
  row_status :: string
  row_turns :: int
  row_tool_calls :: int
  row_cost_usd :: real
  row_duration_ms :: int
  row_tokens :: int

record AggregateMetrics =
  total_workers :: int
  running_workers :: int
  completed_workers :: int
  failed_workers :: int
  total_turns :: int
  total_tool_calls :: int
  total_cost_usd :: real
  total_duration_ms :: int
  total_tokens :: int
  input_tokens :: int
  output_tokens :: int
  cache_creation_tokens :: int
  cache_read_tokens :: int
  worker_summaries :: "WorkerSummary list"

text \<open>The dataclass defaults: \<^verbatim>\<open>AggregateMetrics()\<close>.\<close>

definition AggregateMetrics_init :: AggregateMetrics where
  "AggregateMetrics_init =
     \<lparr>total_workers = 0, running_workers = 0, completed_workers = 0, failed_workers = 0,
      total_turns = 0, total_tool_calls = 0, total_cost_usd = 0, total_duration_ms = 0,
      total_tokens = 0, input_tokens = 0, output_tokens = 0, cache_creation_tokens = 0,
      cache_read_tokens = 0, worker_summaries = []\<rparr>"

text \<open>
  The external collaborators of the aggregator, neither of which it wraps in a
  \<^verbatim>\<open>try\<close>: \<^verbatim>\<open>scan_workers\<close>, \<^verbatim>\<open>parse_iteration_logs\<close> and
  \<^verbatim>\<open>get_conversation_summary\<close>.  The last two may raise.
\<close>

record providers =
  scan_workers_of :: "path \<Rightarrow> Worker list"
  parse_iteration_logs :: "path \<Rightarrow> py_exc + Conversation"
  get_conversation_summary :: "Conversation \<Rightarrow> py_exc + Summary"

text \<open>The \<^verbatim>\<open>if\<close>/\<^verbatim>\<open>elif\<close> chain on \<^verbatim>\<open>worker.status\<close>.\<close>

definition count_status :: "Worker \<Rightarrow> AggregateMetrics \<Rightarrow> AggregateMetrics" where
  "count_status worker metrics =
     (if status worker = RUNNING then metrics\<lparr>running_workers := running_workers metrics + 1\<rparr>
      else if status worker = COMPLETED then
        metrics\<lparr>completed_workers := completed_workers metrics + 1\<rparr>
      else if status worker = FAILED then metrics\<lparr>failed_workers := failed_workers metrics + 1\<rparr>
      else metrics)"

definition add_summary :: "Summary \<Rightarrow> AggregateMetrics \<Rightarrow> AggregateMetrics" where
  "add_summary summary metrics =
     metrics\<lparr>total_turns := total_turns metrics + turns summary,
             total_tool_calls := total_tool_calls metrics + tool_calls summary,
             total_cost_usd := total_cost_usd metrics + cost_usd summary,
             total_duration_ms := total_duration_ms metrics + duration_ms summary,
             total_tokens := total_tokens metrics + tokens summary\<rparr>"

text \<open>The inner loop \<^verbatim>\<open>for result in conversation.results\<close>.\<close>

fun add_results :: "ResultEntry list \<Rightarrow> AggregateMetrics \<Rightarrow> AggregateMetrics" where
  "add_results [] metrics = metrics"
| "add_results (result # rest) metrics =
     add_results rest
       (metrics\<lparr>input_tokens := input_tokens metrics + input (usage result),
                output_tokens := output_tokens metrics + output' (usage result),
                cache_creation_tokens :=
                  cache_creation_tokens metrics + cache_creation (usage result),
                cache_read_tokens := cache_read_tokens metrics + cache_read (usage result)\<rparr>)"

definition summary_row :: "Worker \<Rightarrow> Summary \<Rightarrow> WorkerSummary" where
  "summary_row worker summary =
     \<lparr>row_worker_id = id' worker, row_task_id = task_id worker,
      row_status = WorkerStatus_value (status worker), row_turns = turns summary,
      row_tool_calls = tool_calls summary, row_cost_usd = cost_usd summary,
      row_duration_ms = duration_ms summary, row_tokens = tokens summary\<rparr>"

definition store_summary :: "Worker \<Rightarrow> Summary \<Rightarrow> AggregateMetrics \<Rightarrow> AggregateMetrics" where
  "store_summary worker summary metrics =
     (if turns summary > 0 \<or> cost_usd summary > 0 then
        metrics\<lparr>worker_summaries := worker_summaries metrics @ [summary_row worker summary]\<rparr>
      else metrics)"

text \<open>
  The body of \<^verbatim>\<open>for worker in workers\<close>.  An exception of either provider call leaves
  the loop and the function.
\<close>

fun aggregate_loop ::
  "providers \<Rightarrow> path \<Rightarrow> Worker list \<Rightarrow> AggregateMetrics \<Rightarrow> py_exc + AggregateMetrics" where
  "aggregate_loop env ralph_dir [] metrics = Inr metrics"
| "aggregate_loop env ralph_dir (worker # rest) metrics =
     (let metrics1 = count_status worker metrics;
          worker_dir = path_div (path_div ralph_dir ''workers'') (id' worker)
      in case parse_iteration_logs env worker_dir of
           Inl e \<Rightarrow> Inl e
         | Inr conversation \<Rightarrow>
             (case get_conversation_summary env conversation of
                Inl e \<Rightarrow> Inl e
              | Inr summary \<Rightarrow>
                  aggregate_loop env ralph_dir rest
                    (store_summary worker summary
                       (add_results (results conversation) (add_summary summary metrics1)))))"

text \<open>
  \<^verbatim>\<open>list.sort(key=f, reverse=True)\<close>: a stable sort into descending order of the key
  (elements with equal keys keep their order), which CPython computes as reverse,
  stable ascending sort, reverse.
\<close>

definition sort_reverse :: "('a \<Rightarrow> 'k::linorder) \<Rightarrow> 'a list \<Rightarrow> 'a list" where
  "sort_reverse f xs = rev (sort_key f (rev xs))"

definition aggregate_worker_metrics :: "providers \<Rightarrow> path \<Rightarrow> py_exc + AggregateMetrics" where
  "aggregate_worker_metrics env ralph_dir =
     (let workers = scan_workers_of env ralph_dir;
          metrics = AggregateMetrics_init\<lparr>total_workers := int (length workers)\<rparr>
      in case aggregate_loop env ralph_dir workers metrics of
           Inl e \<Rightarrow> Inl e
         | Inr metrics' \<Rightarrow>
             Inr (metrics'\<lparr>worker_summaries :=
                    sort_reverse row_cost_usd (worker_summaries metrics')\<rparr>))"

subsection \<open>Change detection of the metrics panel\<close>

text \<open>Python's \<^verbatim>\<open>str\<close> of an int: the decimal digits, with a sign when negative.\<close>

definition digit_char :: "nat \<Rightarrow> char" where
  "digit_char d = ''0123456789'' ! d"

fun str_nat :: "nat \<Rightarrow> string" where
  "str_nat n = (if n < 10 then [digit_char n] else str_nat (n div 10) @ [digit_char (n mod 10)])"

declare str_nat.simps [simp del]

definition str_int :: "int \<Rightarrow> string" where
  "str_int i = (if i < 0 then CHR ''-'' # str_nat (nat (- i)) else str_nat (nat i))"

text \<open>
  \<^verbatim>\<open>str(data)\<close> of the six-tuple: the elements' \<^verbatim>\<open>repr\<close>, separated by a comma and a
  space, in parentheses.  The \<^verbatim>\<open>repr\<close> of a float is a parameter.
\<close>

definition compute_data_hash :: "(real \<Rightarrow> string) \<Rightarrow> AggregateMetrics \<Rightarrow> string" where
  "compute_data_hash repr_float metrics =
     ''('' @ str_int (total_workers metrics) @ '', '' @
     str_int (completed_workers metrics) @ '', '' @
     str_int (failed_workers metrics) @ '', '' @
     repr_float (total_cost_usd metrics) @ '', '' @
     str_int (total_turns metrics) @ '', '' @
     str_int (total_tool_calls metrics) @ '')''"

text \<open>
  The panel's state: the attributes \<^verbatim>\<open>metrics\<close> and \<^verbatim>\<open>_last_data_hash\<close>, the mounted
  children (of the widgets only \<^verbatim>\<open>Static\<close>, by text and class, is ever mounted by
  \<^verbatim>\<open>refresh_data\<close>), and the number of calls of \<^verbatim>\<open>remove_children\<close>.
\<close>

datatype widget = Static string string

record MetricsPanel =
  metrics :: AggregateMetrics
  last_data_hash :: string
  children :: "widget list"
  renders :: nat

definition MetricsPanel_init :: MetricsPanel where
  "MetricsPanel_init =
     \<lparr>metrics = AggregateMetrics_init, last_data_hash = [], children = [], renders = 0\<rparr>"

text \<open>
  The loop \<^verbatim>\<open>for widget in self.compose(): self.mount(widget)\<close> of \<^verbatim>\<open>refresh_data\<close>.
  \<^verbatim>\<open>compose\<close> loads the metrics again (\<open>loaded_compose\<close>).  Without workers it yields
  the one message and returns.  With workers it yields the title of the summary and
  then enters \<^verbatim>\<open>with Grid(...)\<close>; iterated by hand, outside the composition that Textual
  drives, there is no compose stack to push the grid on, and the statement raises
  \<^verbatim>\<open>IndexError\<close>.  The result is the exception, if any, and the panel as it is left.
\<close>

definition compose_and_mount ::
  "py_exc + AggregateMetrics \<Rightarrow> MetricsPanel \<Rightarrow> py_exc option \<times> MetricsPanel" where
  "compose_and_mount loaded_compose self =
     (case loaded_compose of
        Inl e \<Rightarrow> (Some e, self)
      | Inr m \<Rightarrow>
          (let self1 = self\<lparr>metrics := m\<rparr>
           in if total_workers m = 0 then
                (None,
                 self1\<lparr>children := children self1 @
                   [Static ''No workers found. Run workers to see metrics.''
                      ''empty-message'']\<rparr>)
              else
                (Some IndexError,
                 self1\<lparr>children := children self1 @ [Static ''SUMMARY'' ''section-title'']\<rparr>)))"

text \<open>
  \<^verbatim>\<open>refresh_data\<close>.  \<open>loaded\<close> is what \<^verbatim>\<open>_load_metrics\<close> obtains in
  \<^verbatim>\<open>refresh_data\<close> itself.  The result is the exception, if any, and the panel as it
  is left.
\<close>

definition refresh_data ::
  "(real \<Rightarrow> string) \<Rightarrow> py_exc + AggregateMetrics \<Rightarrow> py_exc + AggregateMetrics \<Rightarrow>
   MetricsPanel \<Rightarrow> py_exc option \<times> MetricsPanel" where
  "refresh_data repr_float loaded loaded_compose self =
     (case loaded of
        Inl e \<Rightarrow> (Some e, self)
      | Inr m \<Rightarrow>
          (let self1 = self\<lparr>metrics := m\<rparr>;
               new_hash = compute_data_hash repr_float m
           in if new_hash = last_data_hash self1 then (None, self1)
              else
                compose_and_mount loaded_compose
                  (self1\<lparr>last_data_hash := new_hash, children := [],
                     renders := renders self1 + 1\<rparr>)))"

section \<open>Worker directory scanner: \<^verbatim>\<open>wiggum_tui/data/worker_scanner.py\<close>\<close>

text \<open>
  The scanner module is not among the sources; its tests
  (\<^verbatim>\<open>tests/test_worker_scanner.py\<close>) are.  Its functions are modelled from the
  specification, and the names its tests list are taken from the tests.
\<close>

subsection \<open>Completion marker reader\<close>

text \<open>The lines of a text, split at the newline character.\<close>

definition newline :: string where
  "newline = [CHR 0x0A]"

fun lines_of :: "string \<Rightarrow> string list" where
  "lines_of [] = [[]]"
| "lines_of (c # cs) =
     (if c = CHR 0x0A then [] # lines_of cs
      else (case lines_of cs of [] \<Rightarrow> [[c]] | l # ls \<Rightarrow> (c # l) # ls))"

text \<open>
  Modelled from the spec: the per-line tokens of section 4.3, which \<^verbatim>\<open>get_prd_status\<close>
  of the missing scanner module reads.  A line carries the failed token when it starts
  with \<^verbatim>\<open>- [*]\<close>, and is unmarked when it starts with \<^verbatim>\<open>- [ ]\<close>.
\<close>

definition failed_line :: "string \<Rightarrow> bool" where
  "failed_line l = prefix ''- [*]'' l"

definition unmarked_line :: "string \<Rightarrow> bool" where
  "unmarked_line l = prefix ''- [ ]'' l"

text \<open>
  Modelled from the spec: \<^verbatim>\<open>get_prd_status\<close> of the missing scanner module, section
  4.3.  The file is its text, or \<open>None\<close> when it does not exist; the verdicts are the
  strings the tests compare with.
\<close>

definition get_prd_status :: "string option \<Rightarrow> string" where
  "get_prd_status prd =
     (case prd of
        None \<Rightarrow> ''incomplete''
      | Some content \<Rightarrow>
          if list_ex failed_line (lines_of content) then ''failed''
          else if list_ex unmarked_line (lines_of content) then ''incomplete''
          else ''complete'')"

subsection \<open>Status resolution\<close>

text \<open>
  Modelled from the spec: the status resolution of the missing scanner module, section
  4.2, first match wins.  \<open>marker\<close> is the PID held by the liveness marker file, if that
  file exists; \<open>is_running\<close> and \<open>is_worker\<close> are the liveness probe and the identity
  verification, the two functions that the tests replace by mocks.
\<close>

definition resolve_status ::
  "(int \<Rightarrow> bool) \<Rightarrow> (int \<Rightarrow> bool) \<Rightarrow> int option \<Rightarrow> string \<Rightarrow> WorkerStatus" where
  "resolve_status is_running is_worker marker verdict =
     (if (case marker of None \<Rightarrow> False | Some p \<Rightarrow> is_running p \<and> is_worker p) then RUNNING
      else if verdict = ''failed'' then FAILED
      else if verdict = ''complete'' then COMPLETED
      else STOPPED)"

subsection \<open>The naming pattern\<close>

definition is_upper :: "char \<Rightarrow> bool" where
  "is_upper c = (c \<in> set ''ABCDEFGHIJKLMNOPQRSTUVWXYZ'')"

definition is_digit :: "char \<Rightarrow> bool" where
  "is_digit c = (c \<in> set ''0123456789'')"

definition task_id_char :: "char \<Rightarrow> bool" where
  "task_id_char c = (is_upper c \<or> is_digit c \<or> c = CHR ''-'')"

text \<open>
  Modelled from the spec: \<^verbatim>\<open>WORKER_PATTERN\<close> of the missing scanner module as section
  4.1 words it, \<^verbatim>\<open>worker-<TASK_ID>-<TIMESTAMP>\<close> with a task id of 4 to 10 uppercase
  letters, digits and hyphens and a timestamp of 1 to 10 decimal digits.  The timestamp
  can only be the run of digits at the end of the name, the character before it the
  separating hyphen, and the task id what stands between the prefix and that hyphen.
  The result is the pair of groups.
\<close>

definition WORKER_PATTERN_spec :: "string \<Rightarrow> (string \<times> string) option" where
  "WORKER_PATTERN_spec name =
     (if \<not> prefix ''worker-'' name then None
      else
        (let rest = drop 7 name;
             ts = rev (takeWhile is_digit (rev rest));
             front = rev (dropWhile is_digit (rev rest))
         in if front = [] then None
            else if last front \<noteq> CHR ''-'' then None
            else
              (let tid = butlast front
               in if 4 \<le> length tid \<and> length tid \<le> 10 \<and> list_all task_id_char tid \<and>
                     1 \<le> length ts \<and> length ts \<le> 10
                  then Some (tid, ts) else None)))"

text \<open>
  The names that \<^verbatim>\<open>TestWorkerPattern\<close> requires \<^verbatim>\<open>WORKER_PATTERN\<close> to match, and
  those it requires it not to match (the comments there: missing timestamp, missing
  prefix, prefix too short, number too long).
\<close>

definition valid_names :: "string list" where
  "valid_names =
     [''worker-TASK-001-1700000000'',
      ''worker-DEV-42-1234567890'',
      ''worker-TEST-1-9999999999'',
      ''worker-ABCDEFGHIJ-9999-1111111111'']"


text \<open>
  One matcher that meets every assertion of \<^verbatim>\<open>TestWorkerPattern\<close>: 2 to 10 uppercase
  letters, a hyphen, 1 to 4 digits, a hyphen, and 1 to 10 digits up to the end of the
  name (the bound on the timestamp is the one of the specification).
\<close>

definition WORKER_PATTERN_tests :: "string \<Rightarrow> (string \<times> string) option" where
  "WORKER_PATTERN_tests name =
     (if \<not> prefix ''worker-'' name then None
      else
        (let rest = drop 7 name;
             letters = takeWhile is_upper rest;
             rest1 = dropWhile is_upper rest
         in if length letters < 2 \<or> 10 < length letters then None
            else
              (case rest1 of
                 [] \<Rightarrow> None
               | c # rest2 \<Rightarrow>
                   if c \<noteq> CHR ''-'' then None
                   else
                     (let digits = takeWhile is_digit rest2;
                          rest3 = dropWhile is_digit rest2
                      in if length digits < 1 \<or> 4 < length digits then None
                         else
                           (case rest3 of
                              [] \<Rightarrow> None
                            | c' # ts \<Rightarrow>
                                if c' = CHR ''-'' \<and> ts \<noteq> [] \<and> length ts \<le> 10 \<and>
                                   list_all is_digit ts
                                then Some (letters @ ''-'' @ digits, ts)
                                else None)))))"

subsection \<open>scan_workers\<close>

text \<open>
  Modelled from the spec: the worker directory layout of section 6, as far as the
  missing scanner reads it.  Of a worker directory: the PID in the liveness marker file
  (\<^verbatim>\<open>agent.pid\<close>), the text of the checklist (\<^verbatim>\<open>prd.md\<close>) and of the result pointer
  (\<^verbatim>\<open>pr_url.txt\<close>), each \<open>None\<close> when the file does not exist.  An entry of the
  \<^verbatim>\<open>workers\<close> directory is an ordinary file or a directory.
\<close>

record worker_dir =
  agent_pid :: "int option"
  prd_md :: "string option"
  pr_url_txt :: "string option"

datatype dir_entry = OrdinaryFile | Directory worker_dir


type_synonym listing = "(string \<times> dir_entry) list"

text \<open>Python's \<^verbatim>\<open>int\<close> of a string of decimal digits.\<close>

definition int_of_digits :: "string \<Rightarrow> int" where
  "int_of_digits ds = foldl (\<lambda>acc c. 10 * acc + (int (of_char c) - 48)) 0 ds"

fun path_str :: "path \<Rightarrow> string" where
  "path_str [] = []"
| "path_str [a] = a"
| "path_str (a # b # rest) = a @ ''/'' @ path_str (b # rest)"

text \<open>
  Modelled from the spec: the \<^verbatim>\<open>Worker\<close> that the missing scanner builds for a
  directory whose name matched with the two groups (section 3).  The file names are those
  the tests create; the name of the working directory is not given by the specification
  or the tests.
\<close>

definition resolve_worker ::
  "(int \<Rightarrow> bool) \<Rightarrow> (int \<Rightarrow> bool) \<Rightarrow> path \<Rightarrow> string \<Rightarrow> string \<times> string \<Rightarrow> worker_dir \<Rightarrow> Worker" where
  "resolve_worker is_running is_worker ralph_dir name groups d =
     (let worker_dir = path_div (path_div ralph_dir ''workers'') name
      in \<lparr>id' = name,
          task_id = fst groups,
          timestamp = int_of_digits (snd groups),
          pid = agent_pid d,
          status = resolve_status is_running is_worker (agent_pid d) (get_prd_status (prd_md d)),
          prd_path = path_str (path_div worker_dir ''prd.md''),
          log_path = path_str (path_div worker_dir ''worker.log''),
          workspace_path = path_str (path_div worker_dir ''workspace''),
          pr_url = pr_url_txt d\<rparr>)"

text \<open>
  Modelled from the spec: \<^verbatim>\<open>scan_workers\<close> of the missing scanner module, section 4.1.
  The pattern, the liveness probe and the identity verification are parameters;
  \<open>workers_dir\<close> is the listing of \<^verbatim>\<open><root>/workers\<close>, or \<open>None\<close> when that directory
  does not exist.  Ordinary files and directories whose name does not match are
  skipped; the workers are ordered by timestamp, latest first.
\<close>

definition scan_entry ::
  "(string \<Rightarrow> (string \<times> string) option) \<Rightarrow> (int \<Rightarrow> bool) \<Rightarrow> (int \<Rightarrow> bool) \<Rightarrow> path \<Rightarrow>
   string \<times> dir_entry \<Rightarrow> Worker option" where
  "scan_entry pat is_running is_worker ralph_dir entry =
     (case snd entry of
        OrdinaryFile \<Rightarrow> None
      | Directory d \<Rightarrow>
          (case pat (fst entry) of
             None \<Rightarrow> None
           | Some groups \<Rightarrow>
               Some (resolve_worker is_running is_worker ralph_dir (fst entry) groups d)))"

definition scan_workers ::
  "(string \<Rightarrow> (string \<times> string) option) \<Rightarrow> (int \<Rightarrow> bool) \<Rightarrow> (int \<Rightarrow> bool) \<Rightarrow> path \<Rightarrow>
   listing option \<Rightarrow> Worker list" where
  "scan_workers pat is_running is_worker ralph_dir workers_dir =
     (case workers_dir of
        None \<Rightarrow> []
      | Some entries \<Rightarrow>
          sort_reverse timestamp
            (List.map_filter (scan_entry pat is_running is_worker ralph_dir) entries))"

subsection \<open>Specification-side definitions for the aggregator\<close>

text \<open>
  Obtaining the log summary of one worker: the two provider calls of the loop body, for
  the directory \<^verbatim>\<open>ralph_dir / "workers" / worker.id\<close>.
\<close>

definition worker_log_summary ::
  "providers \<Rightarrow> path \<Rightarrow> Worker \<Rightarrow> py_exc + Conversation \<times> Summary" where
  "worker_log_summary env ralph_dir worker =
     (case parse_iteration_logs env (path_div (path_div ralph_dir ''workers'') (id' worker)) of
        Inl e \<Rightarrow> Inl e
      | Inr conversation \<Rightarrow>
          (case get_conversation_summary env conversation of
             Inl e \<Rightarrow> Inl e
           | Inr summary \<Rightarrow> Inr (conversation, summary)))"

text \<open>
  The rows of the summary list, said without the aggregator's own row builder: for each
  worker in scan order whose turn count or cost is greater than zero, a row with the
  worker's id and task, the string of its status, and the turns, tool calls, cost,
  duration and tokens of its summary.
\<close>

definition spec_summary_rows :: "providers \<Rightarrow> path \<Rightarrow> Worker list \<Rightarrow> WorkerSummary list" where
  "spec_summary_rows env ralph_dir workers =
     concat (map (\<lambda>worker.
        case worker_log_summary env ralph_dir worker of
          Inl e \<Rightarrow> []
        | Inr (conversation, summary) \<Rightarrow>
            if 0 < turns summary \<or> 0 < cost_usd summary then
              [\<lparr>row_worker_id = id' worker,
                row_task_id = task_id worker,
                row_status =
                  (case status worker of
                     RUNNING \<Rightarrow> ''running'' | COMPLETED \<Rightarrow> ''completed''
                   | FAILED \<Rightarrow> ''failed'' | STOPPED \<Rightarrow> ''stopped''),
                row_turns = turns summary,
                row_tool_calls = tool_calls summary,
                row_cost_usd = cost_usd summary,
                row_duration_ms = duration_ms summary,
                row_tokens = tokens summary\<rparr>]
            else []) workers)"

text \<open>Counting one more worker in \<^verbatim>\<open>total_workers\<close>.\<close>

definition count_worker :: "AggregateMetrics \<Rightarrow> AggregateMetrics" where
  "count_worker m = m\<lparr>total_workers := total_workers m + 1\<rparr>"

text \<open>
  The summary of a worker without readable logs: no result entries, every counter zero.
\<close>

definition empty_summary :: "Conversation \<times> Summary" where
  "empty_summary =
     (\<lparr>results = []\<rparr>,
      \<lparr>turns = 0, tool_calls = 0, cost_usd = 0, duration_ms = 0, tokens = 0\<rparr>)"

subsection \<open>Example inputs\<close>

text \<open>
  A command runner that lets \<^verbatim>\<open>wiggum stop\<close> succeed, answers exit code 1 to a call
  with the kill timeout and times out otherwise.
\<close>

definition example_run :: subprocess_run where
  "example_run args t =
     (if args = [''wiggum'', ''stop'', ''worker-TASK-001-1700000000''] then Inr 0
      else if t = 10 then Inr 1
      else Inl TimeoutExpired)"

text \<open>
  \<^verbatim>\<open>subprocess.run\<close> refuses an argument that holds a NUL character before it starts a
  process: \<^verbatim>\<open>ValueError\<close> (embedded null byte).  A runner that does so, and whose
  command otherwise exits with code 0.
\<close>

definition nul_checking_run :: subprocess_run where
  "nul_checking_run args t =
     (if list_ex (\<lambda>arg. CHR 0x00 \<in> set arg) args then Inl ValueError else Inr 0)"

text \<open>
  A system with the first process, which the caller may not signal, and the caller
  itself, leader of its process group.
\<close>

definition example_os :: os_state where
  "example_os =
     \<lparr>procs = [(1, \<lparr>pgid = 1, permitted = False\<rparr>), (4242, \<lparr>pgid = 4242, permitted = True\<rparr>)],
      caller_pid = 4242, caller_pgid = 4242\<rparr>"

text \<open>A fleet of three workers and a log-summary provider for it.\<close>

definition example_worker :: "string \<Rightarrow> string \<Rightarrow> int \<Rightarrow> WorkerStatus \<Rightarrow> Worker" where
  "example_worker name task ts st =
     \<lparr>id' = name, task_id = task, timestamp = ts, pid = None, status = st,
      prd_path = [], log_path = [], workspace_path = [], pr_url = None\<rparr>"

definition example_fleet :: "Worker list" where
  "example_fleet =
     [example_worker ''worker-TASK-001-1700000001'' ''TASK-001'' 1700000001 STOPPED,
      example_worker ''worker-TASK-002-1700000002'' ''TASK-002'' 1700000002 COMPLETED,
      example_worker ''worker-TASK-003-1700000003'' ''TASK-003'' 1700000003 RUNNING]"

definition example_conversation :: "int \<Rightarrow> Conversation" where
  "example_conversation n =
     \<lparr>results = [\<lparr>usage = \<lparr>input = n, output' = 2 * n, cache_creation = 0, cache_read = 5\<rparr>\<rparr>]\<rparr>"

definition example_env :: providers where
  "example_env =
     \<lparr>scan_workers_of = (\<lambda>_. example_fleet),
      parse_iteration_logs = (\<lambda>p.
         if p = [''.ralph'', ''workers'', ''worker-TASK-001-1700000001'']
         then Inr \<lparr>results = []\<rparr>
         else if p = [''.ralph'', ''workers'', ''worker-TASK-002-1700000002'']
         then Inr (example_conversation 10)
         else Inr (example_conversation 40)),
      get_conversation_summary = (\<lambda>c.
         if results c = [] then Inr (snd empty_summary)
         else if c = example_conversation 10
         then Inr \<lparr>turns = 3, tool_calls = 7, cost_usd = 1 / 4, duration_ms = 1200, tokens = 35\<rparr>
         else Inr \<lparr>turns = 9, tool_calls = 20, cost_usd = 3 / 2, duration_ms = 5000,
                   tokens = 125\<rparr>)\<rparr>"

text \<open>The same provider, except that reading the logs of the first worker raises.\<close>

definition failing_env :: providers where
  "failing_env =
     example_env\<lparr>parse_iteration_logs := (\<lambda>p.
        if p = [''.ralph'', ''workers'', ''worker-TASK-001-1700000001''] then Inl OSError
        else parse_iteration_logs example_env p)\<rparr>"

text \<open>A provider whose summary of every worker has the turn count -1 and no cost.\<close>

definition negative_env :: providers where
  "negative_env =
     \<lparr>scan_workers_of =
        (\<lambda>d. [example_worker ''worker-TASK-001-1700000001'' ''TASK-001'' 1700000001 STOPPED]),
      parse_iteration_logs = (\<lambda>p. Inr \<lparr>results = []\<rparr>),
      get_conversation_summary = (\<lambda>c.
         Inr \<lparr>turns = - 1, tool_calls = 0, cost_usd = 0, duration_ms = 0, tokens = 0\<rparr>)\<rparr>"

text \<open>A float \<^verbatim>\<open>repr\<close> that is right on the one value used, and a snapshot.\<close>

definition example_repr_float :: "real \<Rightarrow> string" where
  "example_repr_float x = (if x = 7 / 4 then ''1.75'' else ''0.0'')"

definition example_metrics :: AggregateMetrics where
  "example_metrics =
     AggregateMetrics_init\<lparr>total_workers := 3, running_workers := 1, completed_workers := 1,
       total_turns := 12, total_tool_calls := 27, total_cost_usd := 7 / 4\<rparr>"

text \<open>Worker directories as the tests of the scanner create them, and two listings.\<close>

definition done_dir :: worker_dir where
  "done_dir = \<lparr>agent_pid = None, prd_md = Some ''- [x] Done'', pr_url_txt = None\<rparr>"

definition running_dir :: worker_dir where
  "running_dir = \<lparr>agent_pid = Some 12345, prd_md = Some ''- [ ] Not done'', pr_url_txt = None\<rparr>"

definition failed_dir :: worker_dir where
  "failed_dir = \<lparr>agent_pid = None, prd_md = Some ''- [*] Failed task'', pr_url_txt = None\<rparr>"


definition sort_test_listing :: listing where
  "sort_test_listing =
     [(''worker-TASK-001-1700000001'', Directory done_dir),
      (''worker-TASK-002-1700000002'', Directory done_dir),
      (''worker-TASK-003-1700000003'', Directory done_dir)]"

section \<open>Properties of the control facade and the probes\<close>

lemma str_in_sublist: "str_in needle hay \<longleftrightarrow> sublist needle hay"
  by (induction hay) (auto simp: sublist_Cons_right)

lemma str_in_iff: "str_in needle hay \<longleftrightarrow> (\<exists>before after. hay = before @ needle @ after)"
  by (simp add: str_in_sublist sublist_def)

text \<open>
  The liveness probe is not a test of existence on every integer: beyond the range of a
  C \<^verbatim>\<open>int\<close> no process exists and the probe raises \<^verbatim>\<open>OverflowError\<close>, and for the PID 0,
  which no process has, it answers \<open>True\<close>, since it has signalled the caller's group.
\<close>

theorem is_process_running_not_every_integer:
  "2147483648 \<notin> fst ` set (procs example_os) \<and>
   is_process_running (os_kill0 example_os) 2147483648 = Inl OverflowError \<and>
   0 \<notin> fst ` set (procs example_os) \<and>
   is_process_running (os_kill0 example_os) 0 = Inr True"
  by (simp add: is_process_running_def os_kill0_def signal0_def example_os_def)

text \<open>
  C7, as amended.  For every PID that names a single process (from 1 to the largest C
  \<^verbatim>\<open>int\<close>), the liveness probe answers \<open>False\<close> when no process has that PID, and
  \<open>True\<close> when one has, whether the caller may signal it or not.
\<close>

theorem is_process_running_existence:
  assumes "0 < p" and "p \<le> 2 ^ 31 - 1"
  shows "(p \<notin> fst ` set (procs st) \<longrightarrow> is_process_running (os_kill0 st) p = Inr False) \<and>
         (\<forall>pr. (p, pr) \<in> set (procs st) \<and> permitted pr \<longrightarrow>
            is_process_running (os_kill0 st) p = Inr True) \<and>
         (\<forall>pr. (p, pr) \<in> set (procs st) \<and> \<not> permitted pr \<longrightarrow>
            is_process_running (os_kill0 st) p = Inr True)"
proof -
  let ?targets = "map snd (filter (\<lambda>entry. fst entry = p) (procs st))"
  have kill: "os_kill0 st p = signal0 ?targets"
    using assms by (simp add: os_kill0_def)
  have run: "is_process_running (os_kill0 st) p = Inr (?targets \<noteq> [])"
    by (simp add: is_process_running_def kill signal0_def)
  have exists: "?targets \<noteq> [] \<longleftrightarrow> p \<in> fst ` set (procs st)"
    by (auto simp: filter_empty_conv image_iff)
  show ?thesis
    unfolding run exists by force
qed

theorem is_process_running_existence_witness:
  "is_process_running (os_kill0 example_os) 7 = Inr False \<and>
   is_process_running (os_kill0 example_os) 4242 = Inr True \<and>
   is_process_running (os_kill0 example_os) 1 = Inr True"
proof -
  have absent: "7 \<notin> fst ` set (procs example_os)"
    by (simp add: example_os_def)
  have caller: "(4242, \<lparr>pgid = 4242, permitted = True\<rparr>) \<in> set (procs example_os)"
    "permitted \<lparr>pgid = 4242, permitted = True\<rparr>"
    by (simp_all add: example_os_def)
  have first: "(1, \<lparr>pgid = 1, permitted = False\<rparr>) \<in> set (procs example_os)"
    "\<not> permitted \<lparr>pgid = 1, permitted = False\<rparr>"
    by (simp_all add: example_os_def)
  have range: "(0::int) < 7" "(7::int) \<le> 2 ^ 31 - 1" "(0::int) < 4242"
    "(4242::int) \<le> 2 ^ 31 - 1" "(0::int) < 1" "(1::int) \<le> 2 ^ 31 - 1"
    by simp_all
  have "is_process_running (os_kill0 example_os) 7 = Inr False"
    using is_process_running_existence [OF range(1,2), of example_os] absent by blast
  moreover have "is_process_running (os_kill0 example_os) 4242 = Inr True"
    using is_process_running_existence [OF range(3,4), of example_os] caller by blast
  moreover have "is_process_running (os_kill0 example_os) 1 = Inr True"
    using is_process_running_existence [OF range(5,6), of example_os] first by blast
  ultimately show ?thesis by blast
qed

text \<open>
  C10.  Identity verification answers \<open>True\<close> exactly when \<^verbatim>\<open>/proc/<pid>/cmdline\<close>
  exists and the text read from it contains \<^verbatim>\<open>bash\<close> somewhere, whatever process that
  is; an \<^verbatim>\<open>OSError\<close> (a \<^verbatim>\<open>PermissionError\<close> is one) raised by the existence test or by
  the read gives \<open>False\<close>, not an exception.
\<close>

theorem verify_worker_process_bash:
  "(verify_worker_process fs p = Inr True \<longleftrightarrow>
      cmdline_exists fs p = Inr True \<and>
      (\<exists>before after. cmdline_read_text fs p = Inr (before @ ''bash'' @ after))) \<and>
   (is_OSError e \<and>
      (cmdline_exists fs p = Inl e \<or>
       cmdline_exists fs p = Inr True \<and> cmdline_read_text fs p = Inl e) \<longrightarrow>
      verify_worker_process fs p = Inr False)"
proof -
  have iff: "verify_worker_process fs p = Inr True \<longleftrightarrow>
      cmdline_exists fs p = Inr True \<and>
      (\<exists>before after. cmdline_read_text fs p = Inr (before @ ''bash'' @ after))"
    unfolding verify_worker_process_def
    by (auto simp: str_in_iff split: sum.splits bool.splits)
  have err: "is_OSError e \<and>
      (cmdline_exists fs p = Inl e \<or>
       cmdline_exists fs p = Inr True \<and> cmdline_read_text fs p = Inl e) \<longrightarrow>
      verify_worker_process fs p = Inr False"
    unfolding verify_worker_process_def verify_caught_def
    by (auto split: sum.splits bool.splits)
  from iff err show ?thesis by blast
qed

theorem verify_worker_process_bash_witness:
  "verify_worker_process
     \<lparr>cmdline_exists = (\<lambda>p. if p = 4242 then Inr True else Inl PermissionError),
      cmdline_read_text = (\<lambda>p. Inr ''/usr/bin/bash -c sleep 60'')\<rparr> 4242 = Inr True \<and>
   is_OSError PermissionError \<and>
   verify_worker_process
     \<lparr>cmdline_exists = (\<lambda>p. if p = 4242 then Inr True else Inl PermissionError),
      cmdline_read_text = (\<lambda>p. Inr ''/usr/bin/bash -c sleep 60'')\<rparr> 7 = Inr False"
proof -
  let ?fs = "\<lparr>cmdline_exists = (\<lambda>p::int. if p = 4242 then Inr True else Inl PermissionError),
      cmdline_read_text = (\<lambda>p::int. Inr ''/usr/bin/bash -c sleep 60'')\<rparr>"
  have rd: "cmdline_read_text ?fs 4242 = Inr (''/usr/bin/'' @ ''bash'' @ '' -c sleep 60'')"
    by simp
  have ex: "cmdline_exists ?fs 4242 = Inr True"
    by simp
  have "verify_worker_process ?fs 4242 = Inr True"
    using verify_worker_process_bash [of ?fs 4242 PermissionError] ex rd by blast
  moreover have "cmdline_exists ?fs 7 = Inl PermissionError"
    by simp
  then have "verify_worker_process ?fs 7 = Inr False"
    using verify_worker_process_bash [of ?fs 7 PermissionError] by simp
  ultimately show ?thesis by simp
qed

text \<open>
  Neither function has a handler for an exception that is not a timeout or an
  \<^verbatim>\<open>OSError\<close>: for a worker id with a NUL character the \<^verbatim>\<open>ValueError\<close> of
  \<^verbatim>\<open>subprocess.run\<close> reaches the caller.
\<close>

theorem stop_kill_raise:
  "stop_worker nul_checking_run [CHR ''w'', CHR 0x00, CHR ''1''] = Inl ValueError \<and>
   kill_worker nul_checking_run [CHR ''w'', CHR 0x00, CHR ''1''] = Inl ValueError"
  by (simp add: stop_worker_def kill_worker_def nul_checking_run_def control_caught_def)

text \<open>
  C6, as amended.  When the external command returns, \<open>stop_worker\<close> and \<open>kill_worker\<close>
  return whether its exit code is zero; when the call times out, finds no command or
  fails with another \<^verbatim>\<open>OSError\<close>, they return \<open>False\<close>; any other exception of the call
  is raised to the caller.  The timeout given to \<^verbatim>\<open>wiggum stop\<close> is strictly longer than
  the one given to \<^verbatim>\<open>wiggum kill\<close>.
\<close>

theorem stop_kill_boolean:
  "(\<forall>rc. run [''wiggum'', ''stop'', worker_id] stop_timeout = Inr rc \<longrightarrow>
      stop_worker run worker_id = Inr (rc = 0)) \<and>
   (\<forall>e. run [''wiggum'', ''stop'', worker_id] stop_timeout = Inl e \<longrightarrow>
      stop_worker run worker_id =
        (if e = TimeoutExpired \<or> e = FileNotFoundError \<or> is_OSError e then Inr False
         else Inl e)) \<and>
   (\<forall>rc. run [''wiggum'', ''kill'', worker_id] kill_timeout = Inr rc \<longrightarrow>
      kill_worker run worker_id = Inr (rc = 0)) \<and>
   (\<forall>e. run [''wiggum'', ''kill'', worker_id] kill_timeout = Inl e \<longrightarrow>
      kill_worker run worker_id =
        (if e = TimeoutExpired \<or> e = FileNotFoundError \<or> is_OSError e then Inr False
         else Inl e)) \<and>
   kill_timeout < stop_timeout"
  by (simp add: stop_worker_def kill_worker_def control_caught_def kill_timeout_def
      stop_timeout_def)

theorem stop_kill_boolean_witness:
  "stop_worker example_run ''worker-TASK-001-1700000000'' = Inr True \<and>
   kill_worker example_run ''worker-TASK-001-1700000000'' = Inr False \<and>
   stop_worker example_run ''worker-TASK-002-1700000001'' = Inr False \<and>
   kill_timeout < stop_timeout"
proof -
  have calls:
    "example_run [''wiggum'', ''stop'', ''worker-TASK-001-1700000000''] stop_timeout = Inr 0"
    "example_run [''wiggum'', ''kill'', ''worker-TASK-001-1700000000''] kill_timeout = Inr 1"
    "example_run [''wiggum'', ''stop'', ''worker-TASK-002-1700000001''] stop_timeout =
       Inl TimeoutExpired"
    by (simp_all add: example_run_def kill_timeout_def stop_timeout_def)
  show ?thesis
    using stop_kill_boolean [of example_run "''worker-TASK-001-1700000000''"]
      stop_kill_boolean [of example_run "''worker-TASK-002-1700000001''"]
    by (simp add: calls)
qed

section \<open>Properties of the fleet aggregator\<close>

lemma aggregate_loop_Cons:
  "aggregate_loop env d (w # ws) m =
     (case worker_log_summary env d w of
        Inl e \<Rightarrow> Inl e
      | Inr (c, s) \<Rightarrow>
          aggregate_loop env d ws
            (store_summary w s (add_results (results c) (add_summary s (count_status w m)))))"
  by (simp add: worker_log_summary_def split: sum.splits)

lemma aggregate_loop_append:
  "aggregate_loop env d (xs @ ys) m =
     (case aggregate_loop env d xs m of
        Inl e \<Rightarrow> Inl e
      | Inr m' \<Rightarrow> aggregate_loop env d ys m')"
  by (induction xs arbitrary: m) (simp_all del: aggregate_loop.simps(2) add: aggregate_loop_Cons split: sum.splits prod.splits)

lemma worker_summaries_add_results [simp]:
  "worker_summaries (add_results rs m) = worker_summaries m"
  by (induction rs arbitrary: m) simp_all

lemma aggregate_loop_returns:
  "(\<exists>m'. aggregate_loop env d ws m = Inr m') \<longleftrightarrow>
   (\<forall>w\<in>set ws. \<exists>cs. worker_log_summary env d w = Inr cs)"
  by (induction ws arbitrary: m) (auto simp del: aggregate_loop.simps(2) simp add: aggregate_loop_Cons split: sum.splits prod.splits)

lemma summary_row_fields:
  "summary_row w s =
     \<lparr>row_worker_id = id' w, row_task_id = task_id w,
      row_status =
        (case status w of
           RUNNING \<Rightarrow> ''running'' | COMPLETED \<Rightarrow> ''completed''
         | FAILED \<Rightarrow> ''failed'' | STOPPED \<Rightarrow> ''stopped''),
      row_turns = turns s, row_tool_calls = tool_calls s, row_cost_usd = cost_usd s,
      row_duration_ms = duration_ms s, row_tokens = tokens s\<rparr>"
  by (cases "status w") (simp_all add: summary_row_def)

lemma aggregate_loop_rows:
  assumes "aggregate_loop env d ws m = Inr m'"
  shows "worker_summaries m' = worker_summaries m @ spec_summary_rows env d ws"
  using assms
proof (induction ws arbitrary: m)
  case Nil
  then show ?case by (simp add: spec_summary_rows_def)
next
  case (Cons w ws)
  from Cons.prems obtain c s where cs: "worker_log_summary env d w = Inr (c, s)"
    and rest: "aggregate_loop env d ws
        (store_summary w s (add_results (results c) (add_summary s (count_status w m)))) =
        Inr m'"
    by (auto simp del: aggregate_loop.simps(2) simp add: aggregate_loop_Cons
        split: sum.splits prod.splits)
  have "worker_summaries m' =
      worker_summaries
        (store_summary w s (add_results (results c) (add_summary s (count_status w m)))) @
      spec_summary_rows env d ws"
    using Cons.IH [OF rest] by simp
  moreover have "worker_summaries
      (store_summary w s (add_results (results c) (add_summary s (count_status w m)))) =
      worker_summaries m @
      (if 0 < turns s \<or> 0 < cost_usd s then [summary_row w s] else [])"
    by (auto simp: store_summary_def add_summary_def count_status_def)
  ultimately show ?case
    using cs by (simp add: spec_summary_rows_def summary_row_fields)
qed

lemma sort_reverse_sorted:
  "sorted_wrt (\<lambda>a b. f a \<ge> f b) (sort_reverse f xs)"
proof -
  have "sorted (map f (sort_key f (rev xs)))" by simp
  then have "sorted_wrt (\<lambda>a b. f a \<le> f b) (sort_key f (rev xs))"
    by (simp only: sorted_map)
  then show ?thesis
    by (simp add: sort_reverse_def sorted_wrt_rev)
qed

lemma mset_sort_reverse: "mset (sort_reverse f xs) = mset xs"
  by (simp add: sort_reverse_def)


lemma add_results_commute:
  assumes "\<And>r m. g (add_results [r] m) = add_results [r] (g m)"
  shows "g (add_results rs m) = add_results rs (g m)"
proof (induction rs arbitrary: m)
  case Nil
  show ?case by simp
next
  case (Cons r rs)
  have "add_results (r # rs) m = add_results rs (add_results [r] m)" for m
    by simp
  then show ?case
    using Cons.IH assms by (simp del: add_results.simps)
qed

lemma aggregate_loop_commute:
  assumes "\<And>w m. g (count_status w m) = count_status w (g m)"
    and "\<And>s m. g (add_summary s m) = add_summary s (g m)"
    and "\<And>r m. g (add_results [r] m) = add_results [r] (g m)"
    and "\<And>w s m. g (store_summary w s m) = store_summary w s (g m)"
  shows "aggregate_loop env d ws (g m) = map_sum (\<lambda>e. e) g (aggregate_loop env d ws m)"
proof (induction ws arbitrary: m)
  case Nil
  show ?case by simp
next
  case (Cons w ws)
  show ?case
    by (simp del: aggregate_loop.simps(2)
        add: aggregate_loop_Cons Cons.IH [symmetric] assms(1,2,4) add_results_commute [of g, OF assms(3)]
        split: sum.splits prod.splits)
qed

lemma count_status_commutes:
  "count_status w0 (count_status w m) = count_status w (count_status w0 m)"
  "count_status w0 (add_summary s m) = add_summary s (count_status w0 m)"
  "count_status w0 (add_results [r] m) = add_results [r] (count_status w0 m)"
  "count_status w0 (store_summary w s m) = store_summary w s (count_status w0 m)"
  by (simp_all add: count_status_def add_summary_def store_summary_def)

lemma count_worker_commutes:
  "count_worker (count_status w m) = count_status w (count_worker m)"
  "count_worker (add_summary s m) = add_summary s (count_worker m)"
  "count_worker (add_results [r] m) = add_results [r] (count_worker m)"
  "count_worker (store_summary w s m) = store_summary w s (count_worker m)"
  by (simp_all add: count_worker_def count_status_def add_summary_def store_summary_def)

lemma empty_summary_step:
  "store_summary w (snd empty_summary)
     (add_results (results (fst empty_summary)) (add_summary (snd empty_summary) m)) = m"
  by (simp add: empty_summary_def store_summary_def add_summary_def)

lemma aggregate_loop_scan_irrelevant:
  "aggregate_loop (env\<lparr>scan_workers_of := f\<rparr>) d ws m = aggregate_loop env d ws m"
  by (induction ws arbitrary: m) (simp_all split: sum.splits)

lemma aggregate_loop_skip:
  assumes "worker_log_summary env d w = Inr empty_summary"
  shows "aggregate_loop env d (before @ [w] @ after) m =
         map_sum (\<lambda>e. e) (count_status w) (aggregate_loop env d (before @ after) m)"
proof -
  have one: "aggregate_loop env d (w # rest) m' = aggregate_loop env d rest (count_status w m')"
    for m' rest
    using assms empty_summary_step [of w "count_status w m'"]
    by (simp del: aggregate_loop.simps(2) add: aggregate_loop_Cons empty_summary_def)
  show ?thesis
    by (simp del: aggregate_loop.simps(2) add: aggregate_loop_append one
          aggregate_loop_commute [of "count_status w", OF count_status_commutes]
          split: sum.splits)
qed


lemma worker_log_summary_scan_irrelevant:
  "worker_log_summary (env\<lparr>scan_workers_of := f\<rparr>) d w = worker_log_summary env d w"
  by (simp add: worker_log_summary_def split: sum.splits)

lemma aggregate_returns:
  "(\<exists>m. aggregate_worker_metrics env d = Inr m) \<longleftrightarrow>
   (\<forall>w\<in>set (scan_workers_of env d). \<exists>cs. worker_log_summary env d w = Inr cs)"
proof -
  have "(\<exists>m. aggregate_worker_metrics env d = Inr m) \<longleftrightarrow>
        (\<exists>m'. aggregate_loop env d (scan_workers_of env d)
           (AggregateMetrics_init\<lparr>total_workers := int (length (scan_workers_of env d))\<rparr>) = Inr m')"
    by (auto simp: aggregate_worker_metrics_def Let_def split: sum.splits)
  then show ?thesis
    by (simp only: aggregate_loop_returns)
qed

lemma aggregate_skip:
  assumes scan: "scan_workers_of env d = before @ [w] @ after"
    and empty: "worker_log_summary env d w = Inr empty_summary"
  shows "aggregate_worker_metrics env d =
           map_sum (\<lambda>e. e) (\<lambda>m. count_status w (count_worker m))
             (aggregate_worker_metrics (env\<lparr>scan_workers_of := \<lambda>_. before @ after\<rparr>) d)"
proof -
  let ?m0 = "AggregateMetrics_init\<lparr>total_workers := int (length (before @ after))\<rparr>"
  have init: "AggregateMetrics_init\<lparr>total_workers := int (length (before @ [w] @ after))\<rparr>
                = count_worker ?m0"
    by (simp add: count_worker_def)
  have loop: "aggregate_loop env d (before @ [w] @ after) (count_worker ?m0) =
      map_sum (\<lambda>e. e) (\<lambda>m. count_status w (count_worker m))
        (aggregate_loop env d (before @ after) ?m0)"
    unfolding aggregate_loop_skip [OF empty]
      aggregate_loop_commute [of count_worker, OF count_worker_commutes]
    by (cases "aggregate_loop env d (before @ after) ?m0")
       (simp_all add: count_worker_commutes(1))
  have fin: "worker_summaries (count_status w (count_worker m)) = worker_summaries m" for m
    by (simp add: count_status_def count_worker_def)
  have upd: "count_status w (count_worker m)\<lparr>worker_summaries := rows\<rparr>
      = count_status w (count_worker (m\<lparr>worker_summaries := rows\<rparr>))" for m rows
    by (simp add: count_status_def count_worker_def)
  show ?thesis
    unfolding aggregate_worker_metrics_def Let_def scan init loop
    by (cases "aggregate_loop env d (before @ after) ?m0")
       (simp_all add: aggregate_loop_scan_irrelevant fin upd)
qed

text \<open>
  C5, as amended.  When the log-summary provider answers one worker with the empty
  summary (no result entries, every counter zero), the pass over the fleet returns
  exactly when the provider returns for every other worker, and its snapshot is the one
  of the fleet without that worker, except that the worker is counted in
  \<^verbatim>\<open>total_workers\<close> and in the counter of its status: it adds nothing to any running
  total and has no summary row.
\<close>

theorem aggregate_empty_summary:
  assumes scan: "scan_workers_of env d = before @ [w] @ after"
    and empty: "worker_log_summary env d w = Inr empty_summary"
  shows "((\<exists>m. aggregate_worker_metrics env d = Inr m) \<longleftrightarrow>
            (\<forall>v\<in>set (before @ after). \<exists>cs. worker_log_summary env d v = Inr cs)) \<and>
         (\<forall>m'. aggregate_worker_metrics (env\<lparr>scan_workers_of := \<lambda>_. before @ after\<rparr>) d = Inr m' \<longrightarrow>
            (\<exists>m. aggregate_worker_metrics env d = Inr m \<and>
               total_workers m = total_workers m' + 1 \<and>
               running_workers m = running_workers m' + (if status w = RUNNING then 1 else 0) \<and>
               completed_workers m =
                 completed_workers m' + (if status w = COMPLETED then 1 else 0) \<and>
               failed_workers m = failed_workers m' + (if status w = FAILED then 1 else 0) \<and>
               total_turns m = total_turns m' \<and>
               total_tool_calls m = total_tool_calls m' \<and>
               total_cost_usd m = total_cost_usd m' \<and>
               total_duration_ms m = total_duration_ms m' \<and>
               total_tokens m = total_tokens m' \<and>
               input_tokens m = input_tokens m' \<and>
               output_tokens m = output_tokens m' \<and>
               cache_creation_tokens m = cache_creation_tokens m' \<and>
               cache_read_tokens m = cache_read_tokens m' \<and>
               worker_summaries m = worker_summaries m'))"
proof (intro conjI allI impI)
  show "(\<exists>m. aggregate_worker_metrics env d = Inr m) \<longleftrightarrow>
        (\<forall>v\<in>set (before @ after). \<exists>cs. worker_log_summary env d v = Inr cs)"
    using empty by (auto simp: aggregate_returns scan)
next
  fix m'
  assume rest: "aggregate_worker_metrics (env\<lparr>scan_workers_of := \<lambda>_. before @ after\<rparr>) d = Inr m'"
  have "aggregate_worker_metrics env d = Inr (count_status w (count_worker m'))"
    by (simp add: aggregate_skip [OF scan empty] rest)
  then show "\<exists>m. aggregate_worker_metrics env d = Inr m \<and>
               total_workers m = total_workers m' + 1 \<and>
               running_workers m = running_workers m' + (if status w = RUNNING then 1 else 0) \<and>
               completed_workers m =
                 completed_workers m' + (if status w = COMPLETED then 1 else 0) \<and>
               failed_workers m = failed_workers m' + (if status w = FAILED then 1 else 0) \<and>
               total_turns m = total_turns m' \<and>
               total_tool_calls m = total_tool_calls m' \<and>
               total_cost_usd m = total_cost_usd m' \<and>
               total_duration_ms m = total_duration_ms m' \<and>
               total_tokens m = total_tokens m' \<and>
               input_tokens m = input_tokens m' \<and>
               output_tokens m = output_tokens m' \<and>
               cache_creation_tokens m = cache_creation_tokens m' \<and>
               cache_read_tokens m = cache_read_tokens m' \<and>
               worker_summaries m = worker_summaries m'"
    by (simp add: count_status_def count_worker_def)
qed

lemmas example_defs = aggregate_worker_metrics_def example_env_def example_fleet_def
  example_worker_def path_div_def example_conversation_def empty_summary_def
  count_status_def add_summary_def store_summary_def sort_reverse_def
  AggregateMetrics_init_def summary_row_def

theorem aggregate_empty_summary_witness:
  "\<exists>m. aggregate_worker_metrics example_env [''.ralph''] = Inr m \<and>
       total_workers m = 3 \<and> total_turns m = 12 \<and> total_cost_usd m = 7 / 4 \<and>
       input_tokens m = 50 \<and>
       map row_worker_id (worker_summaries m) =
         [''worker-TASK-003-1700000003'', ''worker-TASK-002-1700000002'']"
proof -
  let ?w = "example_worker ''worker-TASK-001-1700000001'' ''TASK-001'' 1700000001 STOPPED"
  let ?after = "[example_worker ''worker-TASK-002-1700000002'' ''TASK-002'' 1700000002 COMPLETED,
      example_worker ''worker-TASK-003-1700000003'' ''TASK-003'' 1700000003 RUNNING]"
  let ?env' = "example_env\<lparr>scan_workers_of := \<lambda>_. [] @ ?after\<rparr>"
  define m' where "m' = projr (aggregate_worker_metrics ?env' [''.ralph''])"
  have scan: "scan_workers_of example_env [''.ralph''] = [] @ [?w] @ ?after"
    by (simp add: example_env_def example_fleet_def)
  have empty: "worker_log_summary example_env [''.ralph''] ?w = Inr empty_summary"
    by (simp add: worker_log_summary_def example_env_def example_worker_def path_div_def
        empty_summary_def)
  have rest: "aggregate_worker_metrics ?env' [''.ralph''] = Inr m'"
    unfolding m'_def by (simp add: example_defs)
  have vals: "total_workers m' = 2" "total_turns m' = 12" "total_cost_usd m' = 7 / 4"
    "input_tokens m' = 50"
    "map row_worker_id (worker_summaries m') =
       [''worker-TASK-003-1700000003'', ''worker-TASK-002-1700000002'']"
    unfolding m'_def by (simp_all add: example_defs)
  from aggregate_empty_summary [OF scan empty] rest vals show ?thesis
    by fastforce
qed

text \<open>
  The aggregator has no \<^verbatim>\<open>try\<close> of its own: when \<^verbatim>\<open>parse_iteration_logs\<close> raises for
  the first of three workers, the exception is the result of the whole pass, and the
  other two workers are not aggregated.
\<close>

theorem aggregate_failure_propagates:
  "aggregate_worker_metrics failing_env [''.ralph''] = Inl OSError"
  by (simp add: aggregate_worker_metrics_def failing_env_def example_env_def example_fleet_def
      example_worker_def path_div_def)

text \<open>
  A worker whose turn count is -1 has a nonzero turn count and no row: the aggregator
  asks for a turn count or a cost above zero.
\<close>

theorem negative_turns_no_row:
  "aggregate_worker_metrics negative_env [''.ralph''] =
     Inr (AggregateMetrics_init\<lparr>total_workers := 1, total_turns := - 1\<rparr>) \<and>
   worker_summaries (AggregateMetrics_init\<lparr>total_workers := 1, total_turns := - 1\<rparr>) = [] \<and>
   get_conversation_summary negative_env \<lparr>results = []\<rparr> =
     Inr \<lparr>turns = - 1, tool_calls = 0, cost_usd = 0, duration_ms = 0, tokens = 0\<rparr> \<and>
   turns \<lparr>turns = - 1, tool_calls = 0, cost_usd = 0, duration_ms = 0, tokens = 0\<rparr> \<noteq> 0"
  by (simp add: aggregate_worker_metrics_def negative_env_def example_worker_def path_div_def
      count_status_def add_summary_def store_summary_def sort_reverse_def
      AggregateMetrics_init_def)

text \<open>
  C8, as amended.  The summary list of the snapshot holds, for each worker whose turn
  count or cost is greater than zero and for no other, one row with the worker's id,
  task and status and the turns, tool calls, cost, duration and tokens of its summary;
  and the list is in descending order of cost (a cost being a number).
\<close>

theorem worker_summaries_positive_sorted:
  assumes "aggregate_worker_metrics env d = Inr m"
  shows "mset (worker_summaries m) = mset (spec_summary_rows env d (scan_workers_of env d)) \<and>
         sorted_wrt (\<lambda>a b. row_cost_usd b \<le> row_cost_usd a) (worker_summaries m)"
proof -
  let ?ws = "scan_workers_of env d"
  let ?m0 = "AggregateMetrics_init\<lparr>total_workers := int (length ?ws)\<rparr>"
  from assms obtain m1 where loop: "aggregate_loop env d ?ws ?m0 = Inr m1"
    and m: "m = m1\<lparr>worker_summaries := sort_reverse row_cost_usd (worker_summaries m1)\<rparr>"
    by (auto simp: aggregate_worker_metrics_def Let_def split: sum.splits)
  have "worker_summaries m1 = worker_summaries ?m0 @ spec_summary_rows env d ?ws"
    by (rule aggregate_loop_rows [OF loop])
  then have rows: "worker_summaries m1 = spec_summary_rows env d ?ws"
    by (simp add: AggregateMetrics_init_def)
  show ?thesis
    by (simp add: m rows mset_sort_reverse sort_reverse_sorted)
qed

lemma example_log_summaries:
  "worker_log_summary example_env [''.ralph'']
     (example_worker ''worker-TASK-001-1700000001'' ''TASK-001'' 1700000001 STOPPED) =
   Inr empty_summary"
  "worker_log_summary example_env [''.ralph'']
     (example_worker ''worker-TASK-002-1700000002'' ''TASK-002'' 1700000002 COMPLETED) =
   Inr (example_conversation 10,
        \<lparr>turns = 3, tool_calls = 7, cost_usd = 1 / 4, duration_ms = 1200, tokens = 35\<rparr>)"
  "worker_log_summary example_env [''.ralph'']
     (example_worker ''worker-TASK-003-1700000003'' ''TASK-003'' 1700000003 RUNNING) =
   Inr (example_conversation 40,
        \<lparr>turns = 9, tool_calls = 20, cost_usd = 3 / 2, duration_ms = 5000, tokens = 125\<rparr>)"
  by (simp_all add: worker_log_summary_def example_env_def example_worker_def path_div_def
      empty_summary_def example_conversation_def)

theorem worker_summaries_positive_sorted_witness:
  "\<exists>m. aggregate_worker_metrics example_env [''.ralph''] = Inr m \<and>
       mset (worker_summaries m) =
         {#\<lparr>row_worker_id = ''worker-TASK-002-1700000002'', row_task_id = ''TASK-002'',
             row_status = ''completed'', row_turns = 3, row_tool_calls = 7,
             row_cost_usd = 1 / 4, row_duration_ms = 1200, row_tokens = 35\<rparr>,
           \<lparr>row_worker_id = ''worker-TASK-003-1700000003'', row_task_id = ''TASK-003'',
             row_status = ''running'', row_turns = 9, row_tool_calls = 20,
             row_cost_usd = 3 / 2, row_duration_ms = 5000, row_tokens = 125\<rparr>#} \<and>
       sorted_wrt (\<lambda>a b. row_cost_usd b \<le> row_cost_usd a) (worker_summaries m) \<and>
       length (scan_workers_of example_env [''.ralph'']) = 3"
proof -
  define m where "m = projr (aggregate_worker_metrics example_env [''.ralph''])"
  have run: "aggregate_worker_metrics example_env [''.ralph''] = Inr m"
    unfolding m_def by (simp add: example_defs)
  have scan: "scan_workers_of example_env [''.ralph''] = example_fleet"
    by (simp add: example_env_def)
  have rows: "spec_summary_rows example_env [''.ralph''] example_fleet =
      [\<lparr>row_worker_id = ''worker-TASK-002-1700000002'', row_task_id = ''TASK-002'',
         row_status = ''completed'', row_turns = 3, row_tool_calls = 7,
         row_cost_usd = 1 / 4, row_duration_ms = 1200, row_tokens = 35\<rparr>,
       \<lparr>row_worker_id = ''worker-TASK-003-1700000003'', row_task_id = ''TASK-003'',
         row_status = ''running'', row_turns = 9, row_tool_calls = 20,
         row_cost_usd = 3 / 2, row_duration_ms = 5000, row_tokens = 125\<rparr>]"
    unfolding spec_summary_rows_def example_fleet_def
    by (simp add: example_log_summaries empty_summary_def) (simp add: example_worker_def)
  have len: "length (scan_workers_of example_env [''.ralph'']) = 3"
    by (simp add: scan example_fleet_def)
  note main = worker_summaries_positive_sorted [OF run, unfolded scan rows]
  show ?thesis
    by (rule exI [of _ m]) (simp add: run main len)
qed

lemma str_nat_small: "n < 10 \<Longrightarrow> str_nat n = [digit_char n]"
  by (subst str_nat.simps) simp

lemma str_nat_big: "\<not> n < 10 \<Longrightarrow> str_nat n = str_nat (n div 10) @ [digit_char (n mod 10)]"
  by (subst str_nat.simps) simp

lemma digit_cases:
  assumes "d < (10::nat)"
  shows "d = 0 \<or> d = 1 \<or> d = 2 \<or> d = 3 \<or> d = 4 \<or> d = 5 \<or> d = 6 \<or> d = 7 \<or> d = 8 \<or> d = 9"
  using assms by arith

lemma digit_char_value:
  assumes "d < 10"
  shows "int (of_char (digit_char d)) - 48 = int d"
  using digit_cases [OF assms] by (elim disjE) (simp_all add: digit_char_def)

lemma digit_char_digit:
  assumes "d < 10"
  shows "digit_char d \<in> set ''0123456789''"
  using digit_cases [OF assms] by (elim disjE) (simp_all add: digit_char_def)

lemma int_of_digits_snoc:
  "int_of_digits (ds @ [c]) = 10 * int_of_digits ds + (int (of_char c) - 48)"
  by (simp add: int_of_digits_def)

lemma int_of_digits_str_nat: "int_of_digits (str_nat n) = int n"
proof (induction n rule: str_nat.induct)
  case (1 n)
  show ?case
  proof (cases "n < 10")
    case True
    then show ?thesis
      by (simp add: str_nat_small int_of_digits_def digit_char_value)
  next
    case False
    have "int_of_digits (str_nat n) =
        10 * int_of_digits (str_nat (n div 10)) + int (n mod 10)"
      by (simp add: str_nat_big [OF False] int_of_digits_snoc digit_char_value)
    also have "\<dots> = 10 * int (n div 10) + int (n mod 10)"
      using "1.IH" [OF False] by simp
    also have "\<dots> = int n"
      by (simp add: zdiv_int zmod_int)
    finally show ?thesis .
  qed
qed

lemma str_nat_digits: "set (str_nat n) \<subseteq> set ''0123456789''"
proof (induction n rule: str_nat.induct)
  case (1 n)
  show ?case
  proof (cases "n < 10")
    case True
    have "str_nat n = [digit_char n]"
      using True by (rule str_nat_small)
    then show ?thesis
      using digit_char_digit [OF True] by simp
  next
    case False
    have "n mod 10 < 10" by simp
    then have last: "digit_char (n mod 10) \<in> set ''0123456789''"
      by (rule digit_char_digit)
    have "set (str_nat n) = set (str_nat (n div 10)) \<union> {digit_char (n mod 10)}"
      by (subst str_nat_big [OF False]) simp
    then show ?thesis
      using "1.IH" [OF False] last by blast
  qed
qed

lemma str_nat_inj:
  assumes "str_nat a = str_nat b"
  shows "a = b"
proof -
  have "int a = int_of_digits (str_nat a)"
    by (simp only: int_of_digits_str_nat)
  also have "\<dots> = int_of_digits (str_nat b)"
    by (simp only: assms)
  also have "\<dots> = int b"
    by (simp only: int_of_digits_str_nat)
  finally show ?thesis by simp
qed

lemma str_nat_no_minus: "str_nat n \<noteq> CHR ''-'' # cs"
proof
  assume "str_nat n = CHR ''-'' # cs"
  then have "CHR ''-'' \<in> set (str_nat n)" by simp
  then have "CHR ''-'' \<in> set ''0123456789''"
    using str_nat_digits [of n] by (rule rev_subsetD)
  then show False by simp
qed

lemma str_int_inj:
  assumes "str_int i = str_int j"
  shows "i = j"
proof (cases "i < 0")
  case True
  show ?thesis
  proof (cases "j < 0")
    case True
    with \<open>i < 0\<close> assms have "nat (- i) = nat (- j)"
      by (simp add: str_int_def str_nat_inj)
    with True \<open>i < 0\<close> show ?thesis by simp
  next
    case False
    with \<open>i < 0\<close> assms show ?thesis
      using str_nat_no_minus [of "nat j" "str_nat (nat (- i))"] by (simp add: str_int_def)
  qed
next
  case False
  show ?thesis
  proof (cases "j < 0")
    case True
    with \<open>\<not> i < 0\<close> assms show ?thesis
      using str_nat_no_minus [of "nat i" "str_nat (nat (- j))"] by (simp add: str_int_def)
  next
    case False
    with \<open>\<not> i < 0\<close> assms have "nat i = nat j"
      by (simp add: str_int_def str_nat_inj)
    with False \<open>\<not> i < 0\<close> show ?thesis by simp
  qed
qed

lemma str_nat_no_comma: "CHR '','' \<notin> set (str_nat n)"
proof
  assume "CHR '','' \<in> set (str_nat n)"
  then have "CHR '','' \<in> set ''0123456789''"
    using str_nat_digits [of n] by (rule rev_subsetD)
  then show False by simp
qed

lemma str_int_no_comma: "CHR '','' \<notin> set (str_int i)"
  by (cases "i < 0") (simp_all add: str_int_def str_nat_no_comma)

lemma split_at_comma:
  assumes "CHR '','' \<notin> set u" and "CHR '','' \<notin> set u'"
    and "u @ '', '' @ v = u' @ '', '' @ v'"
  shows "u = u' \<and> v = v'"
proof -
  have "\<forall>c\<in>set u. c \<noteq> CHR '',''" and "\<forall>c\<in>set u'. c \<noteq> CHR '',''"
    using assms(1,2) by auto
  then have "takeWhile (\<lambda>c. c \<noteq> CHR '','') (u @ '', '' @ v) = u"
    and "takeWhile (\<lambda>c. c \<noteq> CHR '','') (u' @ '', '' @ v') = u'"
    by (simp_all add: takeWhile_append2)
  then have "u = u'"
    using assms(3) by metis
  with assms(3) show ?thesis by simp
qed

lemma compute_data_hash_inj:
  assumes "compute_data_hash repr_float a = compute_data_hash repr_float b"
    and "CHR '','' \<notin> set (repr_float (total_cost_usd a))"
    and "CHR '','' \<notin> set (repr_float (total_cost_usd b))"
  shows "total_workers a = total_workers b \<and> completed_workers a = completed_workers b \<and>
         failed_workers a = failed_workers b \<and>
         repr_float (total_cost_usd a) = repr_float (total_cost_usd b) \<and>
         total_turns a = total_turns b \<and> total_tool_calls a = total_tool_calls b"
proof -
  let ?r1 = "\<lambda>x. str_int (completed_workers x) @ '', '' @ str_int (failed_workers x) @ '', '' @
      repr_float (total_cost_usd x) @ '', '' @ str_int (total_turns x) @ '', '' @
      str_int (total_tool_calls x) @ '')''"
  let ?r2 = "\<lambda>x. str_int (failed_workers x) @ '', '' @
      repr_float (total_cost_usd x) @ '', '' @ str_int (total_turns x) @ '', '' @
      str_int (total_tool_calls x) @ '')''"
  let ?r3 = "\<lambda>x. repr_float (total_cost_usd x) @ '', '' @ str_int (total_turns x) @ '', '' @
      str_int (total_tool_calls x) @ '')''"
  let ?r4 = "\<lambda>x. str_int (total_turns x) @ '', '' @ str_int (total_tool_calls x) @ '')''"
  let ?r5 = "\<lambda>x. str_int (total_tool_calls x) @ '')''"
  from assms(1) have e0: "str_int (total_workers a) @ '', '' @ ?r1 a =
      str_int (total_workers b) @ '', '' @ ?r1 b"
    by (simp add: compute_data_hash_def)
  from split_at_comma [OF str_int_no_comma str_int_no_comma e0]
  have f1: "str_int (total_workers a) = str_int (total_workers b)" and e1: "?r1 a = ?r1 b"
    by blast+
  from split_at_comma [OF str_int_no_comma str_int_no_comma e1]
  have f2: "str_int (completed_workers a) = str_int (completed_workers b)"
    and e2: "?r2 a = ?r2 b"
    by blast+
  from split_at_comma [OF str_int_no_comma str_int_no_comma e2]
  have f3: "str_int (failed_workers a) = str_int (failed_workers b)" and e3: "?r3 a = ?r3 b"
    by blast+
  from split_at_comma [OF assms(2,3) e3]
  have f4: "repr_float (total_cost_usd a) = repr_float (total_cost_usd b)"
    and e4: "?r4 a = ?r4 b"
    by blast+
  from split_at_comma [OF str_int_no_comma str_int_no_comma e4]
  have f5: "str_int (total_turns a) = str_int (total_turns b)" and e5: "?r5 a = ?r5 b"
    by blast+
  from e5 have f6: "str_int (total_tool_calls a) = str_int (total_tool_calls b)"
    by simp
  from f1 f2 f3 f4 f5 f6 show ?thesis
    by (simp add: str_int_inj)
qed

lemma renders_compose_and_mount:
  "renders (snd (compose_and_mount loaded_compose self)) = renders self"
  by (simp add: compose_and_mount_def Let_def split: sum.splits)

text \<open>
  C9.  Two snapshots that agree on the worker count, the completed and failed counts,
  the summed cost, turns and tool calls have the same fingerprint, whatever else they
  differ in; and with a float \<^verbatim>\<open>repr\<close> that tells the costs apart and writes no comma,
  two snapshots that differ in one of the six do not.  \<open>refresh_data\<close> returns at once,
  with the children as they were, when the new fingerprint equals the stored one, and
  otherwise stores it, removes the children and composes again: exactly then the
  number of renderings changes.
\<close>

theorem fingerprint_change_detection:
  "(total_workers a = total_workers b \<and> completed_workers a = completed_workers b \<and>
    failed_workers a = failed_workers b \<and> total_cost_usd a = total_cost_usd b \<and>
    total_turns a = total_turns b \<and> total_tool_calls a = total_tool_calls b \<longrightarrow>
    compute_data_hash repr_float a = compute_data_hash repr_float b) \<and>
   (inj_on repr_float F \<and> (\<forall>x\<in>F. CHR '','' \<notin> set (repr_float x)) \<and>
    total_cost_usd a \<in> F \<and> total_cost_usd b \<in> F \<and>
    compute_data_hash repr_float a = compute_data_hash repr_float b \<longrightarrow>
    total_workers a = total_workers b \<and> completed_workers a = completed_workers b \<and>
    failed_workers a = failed_workers b \<and> total_cost_usd a = total_cost_usd b \<and>
    total_turns a = total_turns b \<and> total_tool_calls a = total_tool_calls b) \<and>
   (compute_data_hash repr_float m = last_data_hash self \<longrightarrow>
    refresh_data repr_float (Inr m) loaded_compose self = (None, self\<lparr>metrics := m\<rparr>)) \<and>
   (compute_data_hash repr_float m \<noteq> last_data_hash self \<longrightarrow>
    refresh_data repr_float (Inr m) loaded_compose self =
      compose_and_mount loaded_compose
        (self\<lparr>metrics := m, last_data_hash := compute_data_hash repr_float m, children := [],
           renders := renders self + 1\<rparr>)) \<and>
   (renders (snd (refresh_data repr_float (Inr m) loaded_compose self)) = renders self \<longleftrightarrow>
    compute_data_hash repr_float m = last_data_hash self)"
proof -
  have p1: "total_workers a = total_workers b \<and> completed_workers a = completed_workers b \<and>
    failed_workers a = failed_workers b \<and> total_cost_usd a = total_cost_usd b \<and>
    total_turns a = total_turns b \<and> total_tool_calls a = total_tool_calls b \<longrightarrow>
    compute_data_hash repr_float a = compute_data_hash repr_float b"
    by (simp add: compute_data_hash_def)
  have p2: "inj_on repr_float F \<and> (\<forall>x\<in>F. CHR '','' \<notin> set (repr_float x)) \<and>
    total_cost_usd a \<in> F \<and> total_cost_usd b \<in> F \<and>
    compute_data_hash repr_float a = compute_data_hash repr_float b \<longrightarrow>
    total_workers a = total_workers b \<and> completed_workers a = completed_workers b \<and>
    failed_workers a = failed_workers b \<and> total_cost_usd a = total_cost_usd b \<and>
    total_turns a = total_turns b \<and> total_tool_calls a = total_tool_calls b"
  proof (rule impI)
    assume h: "inj_on repr_float F \<and> (\<forall>x\<in>F. CHR '','' \<notin> set (repr_float x)) \<and>
      total_cost_usd a \<in> F \<and> total_cost_usd b \<in> F \<and>
      compute_data_hash repr_float a = compute_data_hash repr_float b"
    then have inj: "inj_on repr_float F" and ca: "total_cost_usd a \<in> F"
      and cb: "total_cost_usd b \<in> F"
      and eq: "compute_data_hash repr_float a = compute_data_hash repr_float b"
      and na: "CHR '','' \<notin> set (repr_float (total_cost_usd a))"
      and nb: "CHR '','' \<notin> set (repr_float (total_cost_usd b))"
      by blast+
    note fields = compute_data_hash_inj [OF eq na nb]
    from fields have "repr_float (total_cost_usd a) = repr_float (total_cost_usd b)"
      by blast
    with inj ca cb have "total_cost_usd a = total_cost_usd b"
      by (simp add: inj_on_eq_iff)
    with fields show "total_workers a = total_workers b \<and>
      completed_workers a = completed_workers b \<and>
      failed_workers a = failed_workers b \<and> total_cost_usd a = total_cost_usd b \<and>
      total_turns a = total_turns b \<and> total_tool_calls a = total_tool_calls b"
      by blast
  qed
  have p3: "compute_data_hash repr_float m = last_data_hash self \<longrightarrow>
    refresh_data repr_float (Inr m) loaded_compose self = (None, self\<lparr>metrics := m\<rparr>)"
    by (simp add: refresh_data_def Let_def)
  have p4: "compute_data_hash repr_float m \<noteq> last_data_hash self \<longrightarrow>
    refresh_data repr_float (Inr m) loaded_compose self =
      compose_and_mount loaded_compose
        (self\<lparr>metrics := m, last_data_hash := compute_data_hash repr_float m, children := [],
           renders := renders self + 1\<rparr>)"
    by (simp add: refresh_data_def Let_def)
  have p5: "renders (snd (refresh_data repr_float (Inr m) loaded_compose self)) = renders self
    \<longleftrightarrow> compute_data_hash repr_float m = last_data_hash self"
    by (simp add: refresh_data_def Let_def renders_compose_and_mount)
  show ?thesis
    using p1 p2 p3 p4 p5 by (intro conjI)
qed

lemma example_hashes:
  "compute_data_hash example_repr_float example_metrics = ''(3, 1, 0, 1.75, 12, 27)''"
  "compute_data_hash example_repr_float AggregateMetrics_init = ''(0, 0, 0, 0.0, 0, 0)''"
  by (simp_all add: compute_data_hash_def example_metrics_def example_repr_float_def
      AggregateMetrics_init_def str_int_def str_nat_small str_nat_big digit_char_def)

theorem fingerprint_change_detection_witness:
  "compute_data_hash example_repr_float
     (example_metrics\<lparr>running_workers := 0, total_tokens := 9\<rparr>) =
     compute_data_hash example_repr_float example_metrics \<and>
   compute_data_hash example_repr_float (example_metrics\<lparr>total_turns := 13\<rparr>) \<noteq>
     compute_data_hash example_repr_float example_metrics \<and>
   refresh_data example_repr_float (Inr AggregateMetrics_init) (Inr AggregateMetrics_init)
     MetricsPanel_init =
     (None,
      \<lparr>metrics = AggregateMetrics_init, last_data_hash = ''(0, 0, 0, 0.0, 0, 0)'',
       children = [Static ''No workers found. Run workers to see metrics.'' ''empty-message''],
       renders = 1\<rparr>) \<and>
   refresh_data example_repr_float (Inr example_metrics) (Inr example_metrics)
     MetricsPanel_init =
     (Some IndexError,
      \<lparr>metrics = example_metrics, last_data_hash = ''(3, 1, 0, 1.75, 12, 27)'',
       children = [Static ''SUMMARY'' ''section-title''], renders = 1\<rparr>) \<and>
   refresh_data example_repr_float (Inr example_metrics) (Inr example_metrics)
     \<lparr>metrics = example_metrics, last_data_hash = ''(3, 1, 0, 1.75, 12, 27)'',
      children = [Static ''SUMMARY'' ''section-title''], renders = 1\<rparr> =
     (None,
      \<lparr>metrics = example_metrics, last_data_hash = ''(3, 1, 0, 1.75, 12, 27)'',
       children = [Static ''SUMMARY'' ''section-title''], renders = 1\<rparr>)"
proof -
  let ?F = "{0, 7 / 4 :: real}"
  let ?panel = "\<lparr>metrics = example_metrics, last_data_hash = ''(3, 1, 0, 1.75, 12, 27)'',
      children = [Static ''SUMMARY'' ''section-title''], renders = 1\<rparr>"
  note main = fingerprint_change_detection [where repr_float = example_repr_float and F = ?F]
  note agree = main [THEN conjunct1, THEN mp]
  note depend = main [THEN conjunct2, THEN conjunct1, THEN mp]
  note skip = main [THEN conjunct2, THEN conjunct2, THEN conjunct1, THEN mp]
  note render = main [THEN conjunct2, THEN conjunct2, THEN conjunct2, THEN conjunct1, THEN mp]
  have same: "compute_data_hash example_repr_float
       (example_metrics\<lparr>running_workers := 0, total_tokens := 9\<rparr>) =
     compute_data_hash example_repr_float example_metrics"
    by (rule agree) simp
  have differ: "compute_data_hash example_repr_float (example_metrics\<lparr>total_turns := 13\<rparr>) \<noteq>
     compute_data_hash example_repr_float example_metrics"
  proof
    assume eq: "compute_data_hash example_repr_float (example_metrics\<lparr>total_turns := 13\<rparr>) =
      compute_data_hash example_repr_float example_metrics"
    have "inj_on example_repr_float ?F \<and>
      (\<forall>x\<in>?F. CHR '','' \<notin> set (example_repr_float x)) \<and>
      total_cost_usd (example_metrics\<lparr>total_turns := 13\<rparr>) \<in> ?F \<and>
      total_cost_usd example_metrics \<in> ?F"
      by (simp add: example_repr_float_def example_metrics_def AggregateMetrics_init_def)
    with eq have "total_turns (example_metrics\<lparr>total_turns := 13\<rparr>) = total_turns example_metrics"
      using depend [of "example_metrics\<lparr>total_turns := 13\<rparr>" example_metrics] by simp
    then show False
      by (simp add: example_metrics_def AggregateMetrics_init_def)
  qed
  have "compute_data_hash example_repr_float AggregateMetrics_init \<noteq>
      last_data_hash MetricsPanel_init"
    by (simp add: example_hashes MetricsPanel_init_def)
  then have empty: "refresh_data example_repr_float (Inr AggregateMetrics_init)
      (Inr AggregateMetrics_init) MetricsPanel_init =
     (None,
      \<lparr>metrics = AggregateMetrics_init, last_data_hash = ''(0, 0, 0, 0.0, 0, 0)'',
       children = [Static ''No workers found. Run workers to see metrics.'' ''empty-message''],
       renders = 1\<rparr>)"
    by (simp add: render example_hashes MetricsPanel_init_def compose_and_mount_def)
       (simp add: AggregateMetrics_init_def)
  have "compute_data_hash example_repr_float example_metrics \<noteq>
      last_data_hash MetricsPanel_init"
    by (simp add: example_hashes MetricsPanel_init_def)
  then have first: "refresh_data example_repr_float (Inr example_metrics) (Inr example_metrics)
      MetricsPanel_init = (Some IndexError, ?panel)"
    by (simp add: render example_hashes MetricsPanel_init_def compose_and_mount_def)
       (simp add: example_metrics_def AggregateMetrics_init_def)
  have "compute_data_hash example_repr_float example_metrics = last_data_hash ?panel"
    by (simp add: example_hashes)
  then have again: "refresh_data example_repr_float (Inr example_metrics) (Inr example_metrics)
      ?panel = (None, ?panel)"
    by (simp add: skip)
  show ?thesis
    using same differ empty first again by (intro conjI)
qed

section \<open>Properties of the worker directory scanner\<close>

lemmas pat_defs = WORKER_PATTERN_spec_def WORKER_PATTERN_tests_def is_upper_def is_digit_def
  task_id_char_def Let_def

lemma set_sort_reverse: "set (sort_reverse f xs) = set xs"
  by (simp add: sort_reverse_def)


lemma set_map_filter_Some:
  "set (List.map_filter f xs) = {y. \<exists>x\<in>set xs. f x = Some y}"
  by (induction xs) (auto simp: map_filter_simps split: option.splits)

lemma set_scan_workers:
  "set (scan_workers pat r v dir (Some entries)) =
   {w. \<exists>entry\<in>set entries. scan_entry pat r v dir entry = Some w}"
  by (simp add: scan_workers_def set_sort_reverse set_map_filter_Some)

lemma resolve_worker_fields:
  "id' (resolve_worker r v dir name groups d) = name"
  "task_id (resolve_worker r v dir name groups d) = fst groups"
  "timestamp (resolve_worker r v dir name groups d) = int_of_digits (snd groups)"
  "pid (resolve_worker r v dir name groups d) = agent_pid d"
  "status (resolve_worker r v dir name groups d) =
     resolve_status r v (agent_pid d) (get_prd_status (prd_md d))"
  "pr_url (resolve_worker r v dir name groups d) = pr_url_txt d"
  by (simp_all add: resolve_worker_def Let_def)

lemma WORKER_PATTERN_tests_valid:
  "map WORKER_PATTERN_tests valid_names =
     [Some (''TASK-001'', ''1700000000''), Some (''DEV-42'', ''1234567890''),
      Some (''TEST-1'', ''9999999999''), Some (''ABCDEFGHIJ-9999'', ''1111111111'')]"
  by (simp add: pat_defs valid_names_def)




lemmas scan_defs = scan_workers_def map_filter_simps scan_entry_def resolve_worker_def
  resolve_status_def get_prd_status_def failed_line_def unmarked_line_def sort_reverse_def
  int_of_digits_def path_div_def Let_def

text \<open>
  C1.  For a worker directory whose name matches, the scan holds a worker of that name
  whose status is \<open>RUNNING\<close> exactly when the liveness marker holds a PID, the process
  is alive and it is verified as a worker; whenever one of the three fails, also with a
  PID file present, the status is the one of the checklist verdict: \<open>FAILED\<close> for
  failed, \<open>COMPLETED\<close> for complete, \<open>STOPPED\<close> otherwise.
\<close>

theorem status_resolution:
  assumes "(name, Directory d) \<in> set entries" and "pat name = Some groups"
  shows "\<exists>w\<in>set (scan_workers pat is_running is_worker dir (Some entries)).
           id' w = name \<and> pid w = agent_pid d \<and>
           (status w = RUNNING \<longleftrightarrow>
              (\<exists>p. agent_pid d = Some p \<and> is_running p \<and> is_worker p)) \<and>
           (\<not> (\<exists>p. agent_pid d = Some p \<and> is_running p \<and> is_worker p) \<longrightarrow>
              status w =
                (if get_prd_status (prd_md d) = ''failed'' then FAILED
                 else if get_prd_status (prd_md d) = ''complete'' then COMPLETED
                 else STOPPED))"
proof -
  let ?w = "resolve_worker is_running is_worker dir name groups d"
  have "scan_entry pat is_running is_worker dir (name, Directory d) = Some ?w"
    using assms(2) by (simp add: scan_entry_def)
  with assms(1) have "?w \<in> set (scan_workers pat is_running is_worker dir (Some entries))"
    unfolding set_scan_workers by blast
  moreover have "status ?w = RUNNING \<longleftrightarrow>
      (\<exists>p. agent_pid d = Some p \<and> is_running p \<and> is_worker p)"
    by (auto simp: resolve_worker_fields resolve_status_def split: option.splits)
  moreover have "\<not> (\<exists>p. agent_pid d = Some p \<and> is_running p \<and> is_worker p) \<longrightarrow>
      status ?w =
        (if get_prd_status (prd_md d) = ''failed'' then FAILED
         else if get_prd_status (prd_md d) = ''complete'' then COMPLETED
         else STOPPED)"
    by (auto simp: resolve_worker_fields resolve_status_def split: option.splits)
  ultimately show ?thesis
    by (intro bexI [of _ ?w]) (simp_all add: resolve_worker_fields)
qed

theorem status_resolution_witness:
  "map status (scan_workers WORKER_PATTERN_tests (\<lambda>p. True) (\<lambda>p. True) [''.ralph'']
      (Some [(''worker-TASK-001-1700000000'', Directory running_dir)])) = [RUNNING] \<and>
   map pid (scan_workers WORKER_PATTERN_tests (\<lambda>p. True) (\<lambda>p. True) [''.ralph'']
      (Some [(''worker-TASK-001-1700000000'', Directory running_dir)])) = [Some 12345] \<and>
   map status (scan_workers WORKER_PATTERN_tests (\<lambda>p. True) (\<lambda>p. False) [''.ralph'']
      (Some [(''worker-TASK-001-1700000000'', Directory running_dir)])) = [STOPPED] \<and>
   map status (scan_workers WORKER_PATTERN_tests (\<lambda>p. False) (\<lambda>p. True) [''.ralph'']
      (Some [(''worker-TASK-001-1700000000'', Directory running_dir)])) = [STOPPED] \<and>
   map status (scan_workers WORKER_PATTERN_tests (\<lambda>p. False) (\<lambda>p. False) [''.ralph'']
      (Some [(''worker-TASK-001-1700000000'', Directory failed_dir)])) = [FAILED] \<and>
   map status (scan_workers WORKER_PATTERN_tests (\<lambda>p. False) (\<lambda>p. False) [''.ralph'']
      (Some [(''worker-TASK-001-1700000000'', Directory done_dir)])) = [COMPLETED]"
proof -
  let ?n = "''worker-TASK-001-1700000000''"
  have pat: "WORKER_PATTERN_tests ?n = Some (''TASK-001'', ''1700000000'')"
    using WORKER_PATTERN_tests_valid by (simp add: valid_names_def)
  have one: "\<exists>w. scan_workers WORKER_PATTERN_tests r v [''.ralph''] (Some [(?n, Directory d)]) = [w]"
    for r v d
    by (simp add: scan_workers_def map_filter_simps scan_entry_def pat sort_reverse_def)
  have verdicts: "get_prd_status (prd_md running_dir) = ''incomplete''"
    "get_prd_status (prd_md failed_dir) = ''failed''"
    "get_prd_status (prd_md done_dir) = ''complete''"
    by (simp_all add: running_dir_def failed_dir_def done_dir_def get_prd_status_def
        failed_line_def unmarked_line_def)
  have marker: "agent_pid running_dir = Some 12345" "agent_pid failed_dir = None"
    "agent_pid done_dir = None"
    by (simp_all add: running_dir_def failed_dir_def done_dir_def)
  have res: "\<exists>w\<in>set (scan_workers WORKER_PATTERN_tests r v [''.ralph''] (Some [(?n, Directory d)])).
           id' w = ?n \<and> pid w = agent_pid d \<and>
           (status w = RUNNING \<longleftrightarrow> (\<exists>p. agent_pid d = Some p \<and> r p \<and> v p)) \<and>
           (\<not> (\<exists>p. agent_pid d = Some p \<and> r p \<and> v p) \<longrightarrow>
              status w =
                (if get_prd_status (prd_md d) = ''failed'' then FAILED
                 else if get_prd_status (prd_md d) = ''complete'' then COMPLETED
                 else STOPPED))" for r v d
  proof -
    have mem: "(?n, Directory d) \<in> set [(?n, Directory d)]"
      by simp
    show ?thesis
      by (rule status_resolution [where pat = WORKER_PATTERN_tests, OF mem pat])
  qed
  have "map status (scan_workers WORKER_PATTERN_tests (\<lambda>p. True) (\<lambda>p. True) [''.ralph'']
      (Some [(?n, Directory running_dir)])) = [RUNNING]"
    "map pid (scan_workers WORKER_PATTERN_tests (\<lambda>p. True) (\<lambda>p. True) [''.ralph'']
      (Some [(?n, Directory running_dir)])) = [Some 12345]"
    using res [of "\<lambda>p. True" "\<lambda>p. True" running_dir] one [of "\<lambda>p. True" "\<lambda>p. True" running_dir]
    by (auto simp: marker)
  moreover have "map status (scan_workers WORKER_PATTERN_tests (\<lambda>p. True) (\<lambda>p. False) [''.ralph'']
      (Some [(?n, Directory running_dir)])) = [STOPPED]"
    using res [of "\<lambda>p. True" "\<lambda>p. False" running_dir] one [of "\<lambda>p. True" "\<lambda>p. False" running_dir]
    by (auto simp: marker verdicts)
  moreover have "map status (scan_workers WORKER_PATTERN_tests (\<lambda>p. False) (\<lambda>p. True) [''.ralph'']
      (Some [(?n, Directory running_dir)])) = [STOPPED]"
    using res [of "\<lambda>p. False" "\<lambda>p. True" running_dir] one [of "\<lambda>p. False" "\<lambda>p. True" running_dir]
    by (auto simp: marker verdicts)
  moreover have "map status (scan_workers WORKER_PATTERN_tests (\<lambda>p. False) (\<lambda>p. False) [''.ralph'']
      (Some [(?n, Directory failed_dir)])) = [FAILED]"
    using res [of "\<lambda>p. False" "\<lambda>p. False" failed_dir] one [of "\<lambda>p. False" "\<lambda>p. False" failed_dir]
    by (auto simp: marker verdicts)
  moreover have "map status (scan_workers WORKER_PATTERN_tests (\<lambda>p. False) (\<lambda>p. False) [''.ralph'']
      (Some [(?n, Directory done_dir)])) = [COMPLETED]"
    using res [of "\<lambda>p. False" "\<lambda>p. False" done_dir] one [of "\<lambda>p. False" "\<lambda>p. False" done_dir]
    by (auto simp: marker verdicts)
  ultimately show ?thesis by simp
qed

text \<open>
  C2.  The completion-marker reader answers \<^verbatim>\<open>failed\<close> when some line carries the
  failed token, whatever the other lines are; \<^verbatim>\<open>complete\<close> when no line carries the
  failed token and none is unmarked; \<^verbatim>\<open>incomplete\<close> when no line carries the failed
  token and some line is unmarked, and when the file does not exist.
\<close>

theorem prd_verdict:
  "get_prd_status None = ''incomplete'' \<and>
   ((\<exists>l\<in>set (lines_of content). failed_line l) \<longrightarrow>
      get_prd_status (Some content) = ''failed'') \<and>
   (\<not> (\<exists>l\<in>set (lines_of content). failed_line l) \<and>
    \<not> (\<exists>l\<in>set (lines_of content). unmarked_line l) \<longrightarrow>
      get_prd_status (Some content) = ''complete'') \<and>
   (\<not> (\<exists>l\<in>set (lines_of content). failed_line l) \<and>
    (\<exists>l\<in>set (lines_of content). unmarked_line l) \<longrightarrow>
      get_prd_status (Some content) = ''incomplete'')"
  by (simp add: get_prd_status_def list_ex_iff)

theorem prd_verdict_witness:
  "get_prd_status (Some (''# PRD'' @ newline @ ''- [x] Task 1'' @ newline @ ''- [x] Task 2'' @ newline))
     = ''complete'' \<and>
   get_prd_status (Some (''# PRD'' @ newline @ ''- [x] Task 1'' @ newline @ ''- [ ] Task 2'' @ newline))
     = ''incomplete'' \<and>
   get_prd_status (Some (''# PRD'' @ newline @ ''- [x] Task 1'' @ newline @ ''- [*] Task 2'' @ newline))
     = ''failed'' \<and>
   get_prd_status (Some (''# PRD'' @ newline @ ''- [ ] Task 1'' @ newline @ ''- [*] Task 2'' @ newline))
     = ''failed'' \<and>
   get_prd_status None = ''incomplete'' \<and>
   get_prd_status (Some []) = ''complete''"
proof -
  let ?complete = "''# PRD'' @ newline @ ''- [x] Task 1'' @ newline @ ''- [x] Task 2'' @ newline"
  let ?incomplete = "''# PRD'' @ newline @ ''- [x] Task 1'' @ newline @ ''- [ ] Task 2'' @ newline"
  let ?failed = "''# PRD'' @ newline @ ''- [x] Task 1'' @ newline @ ''- [*] Task 2'' @ newline"
  let ?both = "''# PRD'' @ newline @ ''- [ ] Task 1'' @ newline @ ''- [*] Task 2'' @ newline"
  have l1: "lines_of ?complete = [''# PRD'', ''- [x] Task 1'', ''- [x] Task 2'', []]"
    and l2: "lines_of ?incomplete = [''# PRD'', ''- [x] Task 1'', ''- [ ] Task 2'', []]"
    and l3: "lines_of ?failed = [''# PRD'', ''- [x] Task 1'', ''- [*] Task 2'', []]"
    and l4: "lines_of ?both = [''# PRD'', ''- [ ] Task 1'', ''- [*] Task 2'', []]"
    by (simp_all add: newline_def)
  have "get_prd_status (Some ?complete) = ''complete''"
    using prd_verdict [of ?complete] unfolding l1
    by (simp add: failed_line_def unmarked_line_def)
  moreover have "get_prd_status (Some ?incomplete) = ''incomplete''"
    using prd_verdict [of ?incomplete] unfolding l2
    by (simp add: failed_line_def unmarked_line_def)
  moreover have "get_prd_status (Some ?failed) = ''failed''"
    using prd_verdict [of ?failed] unfolding l3
    by (simp add: failed_line_def unmarked_line_def)
  moreover have "get_prd_status (Some ?both) = ''failed''"
    using prd_verdict [of ?both] unfolding l4
    by (simp add: failed_line_def unmarked_line_def)
  moreover have "get_prd_status None = ''incomplete''"
    using prd_verdict [of "[]"] by simp
  moreover have "get_prd_status (Some []) = ''complete''"
    using prd_verdict [of "[]"] by (simp add: failed_line_def unmarked_line_def)
  ultimately show ?thesis by simp
qed











text \<open>
  C4.  The workers that a scan returns are in descending order of the timestamp of
  their directory names.
\<close>

theorem scan_sorted_by_timestamp:
  "sorted_wrt (\<lambda>a b. timestamp b \<le> timestamp a)
     (scan_workers pat is_running is_worker dir workers_dir)"
  by (cases workers_dir) (simp_all add: scan_workers_def sort_reverse_sorted)

theorem scan_sorted_by_timestamp_witness:
  "sorted_wrt (\<lambda>a b. timestamp b \<le> timestamp a)
     (scan_workers WORKER_PATTERN_tests (\<lambda>p. False) (\<lambda>p. False) [''.ralph'']
        (Some sort_test_listing)) \<and>
   map id' (scan_workers WORKER_PATTERN_tests (\<lambda>p. False) (\<lambda>p. False) [''.ralph'']
        (Some sort_test_listing)) =
     [''worker-TASK-003-1700000003'', ''worker-TASK-002-1700000002'',
      ''worker-TASK-001-1700000001'']"
proof -
  have pats: "map (WORKER_PATTERN_tests \<circ> fst) sort_test_listing =
     [Some (''TASK-001'', ''1700000001''), Some (''TASK-002'', ''1700000002''),
      Some (''TASK-003'', ''1700000003'')]"
    by (simp add: pat_defs sort_test_listing_def)
  have "map id' (scan_workers WORKER_PATTERN_tests (\<lambda>p. False) (\<lambda>p. False) [''.ralph'']
        (Some sort_test_listing)) =
     [''worker-TASK-003-1700000003'', ''worker-TASK-002-1700000002'',
      ''worker-TASK-001-1700000001'']"
    using pats by (simp add: sort_test_listing_def scan_defs done_dir_def)
  with scan_sorted_by_timestamp [of WORKER_PATTERN_tests "\<lambda>p. False" "\<lambda>p. False" "[''.ralph'']"
      "Some sort_test_listing"]
  show ?thesis by (rule conjI)
qed

end
